theory Spec2Isabelle
  imports Main "HOL-Library.Char_ord"
begin

section \<open>Extension placement in the browser extension service\<close>

text \<open>
  A shallow embedding of \<^verbatim>\<open>src/vs/workbench/services/extensions/browser/extensionService.ts\<close>:
  the capability resolver \<^verbatim>\<open>pickRunningLocation\<close>, the table builders
  \<^verbatim>\<open>determineRunningLocation\<close> and \<^verbatim>\<open>_determineRunningLocation\<close>, the filter
  \<^verbatim>\<open>filterByRunningLocation\<close>, and the two stateful methods
  \<^verbatim>\<open>_updateExtensionsOnExtHosts\<close> and \<^verbatim>\<open>_scanAndHandleExtensions\<close> of the class
  \<^verbatim>\<open>ExtensionService\<close>.
\<close>

subsection \<open>Data model\<close>

text \<open>
  \<^verbatim>\<open>ExtensionKind\<close> is a string type in the source (\<^verbatim>\<open>'ui'\<close>, \<^verbatim>\<open>'workspace'\<close>,
  \<^verbatim>\<open>'web'\<close>); the resolver compares it with \<^verbatim>\<open>===\<close> against string literals, so
  a tag is a string here and any other string matches no rule.
\<close>

type_synonym ExtensionKind = string

text \<open>The \<^verbatim>\<open>const enum ExtensionRunningLocation { None, LocalWebWorker, Remote }\<close>.\<close>

datatype ExtensionRunningLocation = None_location | LocalWebWorker | Remote

datatype ExtensionIdentifier = ExtensionIdentifier string

record URI =
  scheme :: string

text \<open>
  The fields of \<^verbatim>\<open>IExtensionDescription\<close> that the file reads: \<^verbatim>\<open>identifier\<close> and
  \<^verbatim>\<open>extensionLocation.scheme\<close>. The manifest's declared \<^verbatim>\<open>extensionKind\<close> is kept as
  a field; what the service uses is the result of \<^verbatim>\<open>getExtensionKind\<close>, a function of
  another module, which the definitions below take as a parameter.
\<close>

record IExtensionDescription =
  "identifier" :: ExtensionIdentifier
  extensionLocation :: URI
  manifest_extensionKind :: "ExtensionKind list"

text \<open>
  Modelled from the spec: \<^verbatim>\<open>ExtensionIdentifier.toKey\<close> is imported from
  \<^verbatim>\<open>vs/platform/extensions/common/extensions\<close> and is not part of the file. The
  spec's data model makes the identity a case-insensitive, normalized string: two
  identities that differ only in case have the same key. The key is the identifier in
  lower case (letters A to Z).
\<close>

definition toLowerCase_char :: "char \<Rightarrow> char" where
  "toLowerCase_char c =
     (if CHR ''A'' \<le> c \<and> c \<le> CHR ''Z'' then char_of (of_char c + (32::nat)) else c)"

fun toKey :: "ExtensionIdentifier \<Rightarrow> string" where
  "toKey (ExtensionIdentifier v) = map toLowerCase_char v"

text \<open>
  Modelled from the spec: the constant \<^verbatim>\<open>Schemas.vscodeRemote\<close> of
  \<^verbatim>\<open>vs/base/common/network\<close>, the scheme of the location of an extension that was
  scanned from the remote side (the record's origin).
\<close>

definition Schemas_vscodeRemote :: string where
  "Schemas_vscodeRemote = ''vscode-remote''"

subsection \<open>The capability resolver\<close>

text \<open>
  \<^verbatim>\<open>pickRunningLocation\<close>: the \<^verbatim>\<open>for ... of\<close> loop over the declared kinds, with its
  three tests in the order of the source, and the final \<^verbatim>\<open>return None\<close>.
\<close>

fun pickRunningLocation :: "ExtensionKind list \<Rightarrow> bool \<Rightarrow> bool \<Rightarrow> ExtensionRunningLocation" where
  "pickRunningLocation [] isInstalledLocally isInstalledRemotely = None_location"
| "pickRunningLocation (extensionKind # rest) isInstalledLocally isInstalledRemotely =
     (if extensionKind = ''ui'' \<and> isInstalledRemotely then Remote
      else if extensionKind = ''workspace'' \<and> isInstalledRemotely then Remote
      else if extensionKind = ''web'' \<and> isInstalledLocally then LocalWebWorker
      else pickRunningLocation rest isInstalledLocally isInstalledRemotely)"

text \<open>
  The resolver as the specification words it, for comparison with the code: a tag
  matches when it is \<^verbatim>\<open>ui\<close> or \<^verbatim>\<open>workspace\<close> and the extension is installed remotely,
  or it is \<^verbatim>\<open>web\<close> and the extension is installed locally; the first matching tag in
  declared order decides; no matching tag decides \<^verbatim>\<open>None\<close>.
\<close>

definition tag_matches :: "bool \<Rightarrow> bool \<Rightarrow> ExtensionKind \<Rightarrow> bool" where
  "tag_matches installedLocally installedRemotely t =
     (t = ''ui'' \<and> installedRemotely \<or> t = ''workspace'' \<and> installedRemotely
      \<or> t = ''web'' \<and> installedLocally)"

definition tag_decision :: "ExtensionKind \<Rightarrow> ExtensionRunningLocation" where
  "tag_decision t = (if t = ''web'' then LocalWebWorker else Remote)"

definition resolve :: "ExtensionKind list \<Rightarrow> bool \<Rightarrow> bool \<Rightarrow> ExtensionRunningLocation" where
  "resolve capabilityTags installedLocally installedRemotely =
     (case find (tag_matches installedLocally installedRemotely) capabilityTags of
        None \<Rightarrow> None_location
      | Some t \<Rightarrow> tag_decision t)"


subsection \<open>The placement table\<close>

text \<open>
  A JavaScript \<^verbatim>\<open>Map<string, V>\<close> is a partial function from keys to values
  (\<^verbatim>\<open>get\<close> is application, \<^verbatim>\<open>set\<close> is update, \<^verbatim>\<open>delete\<close> is update with no
  value); the file never iterates over a map, so insertion order is not observed. A
  \<^verbatim>\<open>Set<string>\<close> is a set, filled by \<^verbatim>\<open>add\<close>. Each \<^verbatim>\<open>forEach\<close> is a \<^verbatim>\<open>fold\<close>
  over the array, from its first element to its last. Names that start with an
  underscore in the source are written with the prefix \<^verbatim>\<open>us_\<close>.
\<close>

type_synonym RunningLocationMap = "string \<rightharpoonup> ExtensionRunningLocation"

text \<open>
  The closure \<^verbatim>\<open>_pickRunningLocation\<close> inside \<^verbatim>\<open>determineRunningLocation\<close>, with the
  three variables it captures as arguments. \<^verbatim>\<open>allExtensionKinds.get(key) || []\<close> is
  the empty array exactly when the key is absent (every array is truthy).
\<close>

definition us_pickRunningLocation ::
  "string set \<Rightarrow> string set \<Rightarrow> (string \<rightharpoonup> ExtensionKind list) \<Rightarrow> IExtensionDescription
   \<Rightarrow> ExtensionRunningLocation" where
  "us_pickRunningLocation localExtensionsSet remoteExtensionsSet allExtensionKinds extension =
     (let isInstalledLocally = toKey (identifier extension) \<in> localExtensionsSet;
          isInstalledRemotely = toKey (identifier extension) \<in> remoteExtensionsSet;
          extensionKinds = (case allExtensionKinds (toKey (identifier extension)) of
                              Some kinds \<Rightarrow> kinds | None \<Rightarrow> [])
      in pickRunningLocation extensionKinds isInstalledLocally isInstalledRemotely)"

text \<open>\<^verbatim>\<open>determineRunningLocation\<close>; the parameter \<^verbatim>\<open>hasRemote\<close> is kept as the source has it.\<close>

definition determineRunningLocation ::
  "IExtensionDescription list \<Rightarrow> IExtensionDescription list
   \<Rightarrow> (string \<rightharpoonup> ExtensionKind list) \<Rightarrow> bool \<Rightarrow> RunningLocationMap" where
  "determineRunningLocation localExtensions remoteExtensions allExtensionKinds hasRemote =
     (let localExtensionsSet =
            fold (\<lambda>ext s. insert (toKey (identifier ext)) s) localExtensions {};
          remoteExtensionsSet =
            fold (\<lambda>ext s. insert (toKey (identifier ext)) s) remoteExtensions {};
          runningLocation =
            fold (\<lambda>ext m. m(toKey (identifier ext) \<mapsto>
                    us_pickRunningLocation localExtensionsSet remoteExtensionsSet
                      allExtensionKinds ext))
              localExtensions Map.empty
      in fold (\<lambda>ext m. m(toKey (identifier ext) \<mapsto>
                 us_pickRunningLocation localExtensionsSet remoteExtensionsSet
                   allExtensionKinds ext))
           remoteExtensions runningLocation)"

text \<open>
  \<^verbatim>\<open>_determineRunningLocation\<close>. The function \<^verbatim>\<open>getExtensionKind\<close> of
  \<^verbatim>\<open>vs/workbench/services/extensions/common/extensionsUtil\<close> is not part of the file;
  the parameter \<^verbatim>\<open>getExtensionKind\<close> stands for it with the product and configuration
  services already applied.
\<close>

definition us_determineRunningLocation ::
  "(IExtensionDescription \<Rightarrow> ExtensionKind list)
   \<Rightarrow> IExtensionDescription list \<Rightarrow> IExtensionDescription list \<Rightarrow> bool
   \<Rightarrow> RunningLocationMap" where
  "us_determineRunningLocation getExtensionKind localExtensions remoteExtensions hasRemote =
     (let allExtensionKinds =
            fold (\<lambda>ext m. m(toKey (identifier ext) \<mapsto> getExtensionKind ext))
              localExtensions Map.empty;
          allExtensionKinds =
            fold (\<lambda>ext m. m(toKey (identifier ext) \<mapsto> getExtensionKind ext))
              remoteExtensions allExtensionKinds
      in determineRunningLocation localExtensions remoteExtensions allExtensionKinds hasRemote)"

text \<open>
  \<^verbatim>\<open>filterByRunningLocation\<close>: \<^verbatim>\<open>runningLocation.get(key) === desired\<close> is false for a
  missing key.
\<close>

definition filterByRunningLocation ::
  "IExtensionDescription list \<Rightarrow> RunningLocationMap \<Rightarrow> ExtensionRunningLocation
   \<Rightarrow> IExtensionDescription list" where
  "filterByRunningLocation extensions runningLocation desiredRunningLocation =
     filter (\<lambda>ext. runningLocation (toKey (identifier ext)) = Some desiredRunningLocation)
       extensions"

text \<open>The keys of a catalog, and the last record of a catalog that has a given key.\<close>

definition keys_of :: "IExtensionDescription list \<Rightarrow> string set" where
  "keys_of extensions = set (map (\<lambda>ext. toKey (identifier ext)) extensions)"

definition records_of :: "string \<Rightarrow> IExtensionDescription list \<Rightarrow> IExtensionDescription list" where
  "records_of k extensions = filter (\<lambda>ext. toKey (identifier ext) = k) extensions"


subsection \<open>The service state and its collaborators\<close>

text \<open>
  The fields of \<^verbatim>\<open>ExtensionService\<close> that the two methods below read and write:
  \<^verbatim>\<open>_runningLocation\<close>, \<^verbatim>\<open>_remoteInitData\<close> (\<^verbatim>\<open>null\<close> is \<^verbatim>\<open>None\<close>) and the
  inherited \<^verbatim>\<open>_registry\<close>. The registry class and the connection data are declared
  in other modules; their types are parameters.
\<close>

record IRemoteAgentEnvironment =
  env_pid :: int
  env_appRoot :: string
  env_extensionHostLogsPath :: string
  env_globalStorageHome :: string
  env_workspaceStorageHome :: string

record IRemoteAgentConnection =
  remoteAuthority :: string

record 'cd IRemoteExtensionHostInitData =
  connectionData :: 'cd
  pid :: int
  appRoot :: string
  extensionHostLogsPath :: string
  globalStorageHome :: string
  workspaceStorageHome :: string
  extensions :: "IExtensionDescription list"
  allExtensions :: "IExtensionDescription list"

record ('cd, 'reg) ExtensionService =
  us_runningLocation :: RunningLocationMap
  us_remoteInitData :: "'cd IRemoteExtensionHostInitData option"
  us_registry :: 'reg

text \<open>
  The two host kinds the file names, \<^verbatim>\<open>ExtensionHostKind.LocalWebWorker\<close> and
  \<^verbatim>\<open>ExtensionHostKind.Remote\<close>. A host manager is what its \<^verbatim>\<open>deltaExtensions\<close> answers
  to a delta: \<^verbatim>\<open>True\<close> when the awaited promise resolves, \<^verbatim>\<open>False\<close> when it rejects.
  \<^verbatim>\<open>_getExtensionHostManager\<close> (inherited) gives the manager of a kind, or \<^verbatim>\<open>null\<close>.
  An \<^verbatim>\<open>await\<close> of a rejected promise throws: the method ends there with the error
  (a promise that never settles is not modelled).
  The calls a pass issues are recorded in the order they are issued.
\<close>

datatype ExtensionHostKind = HostKind_LocalWebWorker | HostKind_Remote

type_synonym ExtensionHostManager =
  "IExtensionDescription list \<Rightarrow> ExtensionIdentifier list \<Rightarrow> bool"

datatype delta_error = DeltaRejected ExtensionHostKind

datatype host_call =
  DeltaExtensions ExtensionHostKind "IExtensionDescription list" "ExtensionIdentifier list"

subsection \<open>Incremental updates: \<^verbatim>\<open>_updateExtensionsOnExtHosts\<close>\<close>

text \<open>
  The location the first loop picks for an added record, from the record's own
  location scheme: \<^verbatim>\<open>pickRunningLocation(extensionKind, !isRemote, isRemote)\<close>.
\<close>

definition added_location ::
  "(IExtensionDescription \<Rightarrow> ExtensionKind list) \<Rightarrow> IExtensionDescription
   \<Rightarrow> ExtensionRunningLocation" where
  "added_location getExtensionKind extension =
     (let extensionKind = getExtensionKind extension;
          isRemote = (scheme (extensionLocation extension) = Schemas_vscodeRemote)
      in pickRunningLocation extensionKind (\<not> isRemote) isRemote)"

text \<open>
  The body of the first loop (lines 110 to 120): the state is the map and the two
  arrays \<^verbatim>\<open>localToAdd\<close> and \<^verbatim>\<open>remoteToAdd\<close>; \<^verbatim>\<open>push\<close> appends.
\<close>

definition add_step ::
  "(IExtensionDescription \<Rightarrow> ExtensionKind list) \<Rightarrow> IExtensionDescription
   \<Rightarrow> RunningLocationMap \<times> IExtensionDescription list \<times> IExtensionDescription list
   \<Rightarrow> RunningLocationMap \<times> IExtensionDescription list \<times> IExtensionDescription list" where
  "add_step getExtensionKind extension acc =
     (case acc of (runningLocationMap, localToAdd, remoteToAdd) \<Rightarrow>
        (let runningLocation = added_location getExtensionKind extension;
             runningLocationMap =
               runningLocationMap(toKey (identifier extension) \<mapsto> runningLocation)
         in if runningLocation = LocalWebWorker
              then (runningLocationMap, localToAdd @ [extension], remoteToAdd)
            else if runningLocation = Remote
              then (runningLocationMap, localToAdd, remoteToAdd @ [extension])
            else (runningLocationMap, localToAdd, remoteToAdd)))"

definition partition_toAdd ::
  "(IExtensionDescription \<Rightarrow> ExtensionKind list) \<Rightarrow> IExtensionDescription list
   \<Rightarrow> RunningLocationMap
   \<Rightarrow> RunningLocationMap \<times> IExtensionDescription list \<times> IExtensionDescription list" where
  "partition_toAdd getExtensionKind toAdd runningLocationMap =
     fold (add_step getExtensionKind) toAdd (runningLocationMap, [], [])"

text \<open>
  The body of the second loop (lines 124 to 132): \<^verbatim>\<open>get\<close>, then \<^verbatim>\<open>delete\<close>, then
  the routing on what \<^verbatim>\<open>get\<close> returned (\<^verbatim>\<open>undefined\<close> for a missing key).
\<close>

definition remove_step ::
  "ExtensionIdentifier
   \<Rightarrow> RunningLocationMap \<times> ExtensionIdentifier list \<times> ExtensionIdentifier list
   \<Rightarrow> RunningLocationMap \<times> ExtensionIdentifier list \<times> ExtensionIdentifier list" where
  "remove_step extensionId acc =
     (case acc of (runningLocationMap, localToRemove, remoteToRemove) \<Rightarrow>
        (let runningLocation = runningLocationMap (toKey extensionId);
             runningLocationMap = runningLocationMap(toKey extensionId := None)
         in if runningLocation = Some LocalWebWorker
              then (runningLocationMap, localToRemove @ [extensionId], remoteToRemove)
            else if runningLocation = Some Remote
              then (runningLocationMap, localToRemove, remoteToRemove @ [extensionId])
            else (runningLocationMap, localToRemove, remoteToRemove)))"

definition partition_toRemove ::
  "ExtensionIdentifier list \<Rightarrow> RunningLocationMap
   \<Rightarrow> RunningLocationMap \<times> ExtensionIdentifier list \<times> ExtensionIdentifier list" where
  "partition_toRemove toRemove runningLocationMap =
     fold remove_step toRemove (runningLocationMap, [], [])"

text \<open>
  The second \<^verbatim>\<open>if\<close> block (lines 140 to 145), reached only when the first block did
  not throw; \<^verbatim>\<open>issued\<close> holds the calls issued so far.
\<close>

definition dispatch_remote ::
  "(ExtensionHostKind \<Rightarrow> ExtensionHostManager option)
   \<Rightarrow> IExtensionDescription list \<Rightarrow> ExtensionIdentifier list \<Rightarrow> host_call list
   \<Rightarrow> (delta_error + unit) \<times> host_call list" where
  "dispatch_remote us_getExtensionHostManager remoteToAdd remoteToRemove issued =
     (if remoteToAdd \<noteq> [] \<or> remoteToRemove \<noteq> [] then
        (case us_getExtensionHostManager HostKind_Remote of
           Some remoteExtensionHost \<Rightarrow>
             (if remoteExtensionHost remoteToAdd remoteToRemove
              then (Inr (), issued @ [DeltaExtensions HostKind_Remote remoteToAdd remoteToRemove])
              else (Inl (DeltaRejected HostKind_Remote),
                    issued @ [DeltaExtensions HostKind_Remote remoteToAdd remoteToRemove]))
         | None \<Rightarrow> (Inr (), issued))
      else (Inr (), issued))"

text \<open>
  The first \<^verbatim>\<open>if\<close> block (lines 134 to 139) followed by the second: when the awaited
  local call rejects, the method throws and the second block is not run.
\<close>

definition dispatch_local ::
  "(ExtensionHostKind \<Rightarrow> ExtensionHostManager option)
   \<Rightarrow> IExtensionDescription list \<Rightarrow> ExtensionIdentifier list
   \<Rightarrow> IExtensionDescription list \<Rightarrow> ExtensionIdentifier list
   \<Rightarrow> (delta_error + unit) \<times> host_call list" where
  "dispatch_local us_getExtensionHostManager localToAdd localToRemove remoteToAdd remoteToRemove =
     (if localToAdd \<noteq> [] \<or> localToRemove \<noteq> [] then
        (case us_getExtensionHostManager HostKind_LocalWebWorker of
           Some localWebWorkerExtensionHost \<Rightarrow>
             (if localWebWorkerExtensionHost localToAdd localToRemove
              then dispatch_remote us_getExtensionHostManager remoteToAdd remoteToRemove
                     [DeltaExtensions HostKind_LocalWebWorker localToAdd localToRemove]
              else (Inl (DeltaRejected HostKind_LocalWebWorker),
                    [DeltaExtensions HostKind_LocalWebWorker localToAdd localToRemove]))
         | None \<Rightarrow> dispatch_remote us_getExtensionHostManager remoteToAdd remoteToRemove [])
      else dispatch_remote us_getExtensionHostManager remoteToAdd remoteToRemove [])"

text \<open>
  \<^verbatim>\<open>_updateExtensionsOnExtHosts\<close>: the two loops, then the two dispatch blocks. It
  returns how the method ended (\<^verbatim>\<open>Inl\<close> the rejection it threw), the service after
  it, and the calls it issued.
\<close>

definition us_updateExtensionsOnExtHosts ::
  "(IExtensionDescription \<Rightarrow> ExtensionKind list)
   \<Rightarrow> (ExtensionHostKind \<Rightarrow> ExtensionHostManager option)
   \<Rightarrow> ('cd, 'reg) ExtensionService
   \<Rightarrow> IExtensionDescription list \<Rightarrow> ExtensionIdentifier list
   \<Rightarrow> (delta_error + unit) \<times> ('cd, 'reg) ExtensionService \<times> host_call list" where
  "us_updateExtensionsOnExtHosts getExtensionKind us_getExtensionHostManager this toAdd toRemove =
     (case partition_toAdd getExtensionKind toAdd (us_runningLocation this) of
        (afterAdd, localToAdd, remoteToAdd) \<Rightarrow>
     (case partition_toRemove toRemove afterAdd of
        (afterRemove, localToRemove, remoteToRemove) \<Rightarrow>
     (case dispatch_local us_getExtensionHostManager
             localToAdd localToRemove remoteToAdd remoteToRemove of
        (outcome, issued) \<Rightarrow>
          (outcome, this\<lparr>us_runningLocation := afterRemove\<rparr>, issued))))"

text \<open>
  The conditions of the two dispatch blocks, for the statements below: a call to the
  host of a kind is due when its add list or its remove list is not empty and the
  host's manager exists; a due call is rejected when the manager's answer is a
  rejection.
\<close>

definition call_due ::
  "(ExtensionHostKind \<Rightarrow> ExtensionHostManager option) \<Rightarrow> ExtensionHostKind
   \<Rightarrow> IExtensionDescription list \<Rightarrow> ExtensionIdentifier list \<Rightarrow> bool" where
  "call_due us_getExtensionHostManager kind toAdd toRemove =
     ((toAdd \<noteq> [] \<or> toRemove \<noteq> []) \<and> us_getExtensionHostManager kind \<noteq> None)"

definition call_rejected ::
  "(ExtensionHostKind \<Rightarrow> ExtensionHostManager option) \<Rightarrow> ExtensionHostKind
   \<Rightarrow> IExtensionDescription list \<Rightarrow> ExtensionIdentifier list \<Rightarrow> bool" where
  "call_rejected us_getExtensionHostManager kind toAdd toRemove =
     ((toAdd \<noteq> [] \<or> toRemove \<noteq> [])
      \<and> (case us_getExtensionHostManager kind of
            Some host \<Rightarrow> \<not> host toAdd toRemove | None \<Rightarrow> False))"


subsection \<open>Full scans: \<^verbatim>\<open>_scanAndHandleExtensions\<close>\<close>

text \<open>
  \<^verbatim>\<open>_scanAndHandleExtensions\<close> from the point where the three awaited scans have
  resolved: the arguments \<^verbatim>\<open>localExtensions\<close>, \<^verbatim>\<open>remoteEnv\<close> and \<^verbatim>\<open>remoteExtensions\<close>
  are their results and \<^verbatim>\<open>remoteAgentConnection\<close> is what \<^verbatim>\<open>getConnection()\<close>
  returns (\<^verbatim>\<open>null\<close> is \<^verbatim>\<open>None\<close>). The inherited \<^verbatim>\<open>_checkEnabledAndProposedAPI\<close>, the
  registry's \<^verbatim>\<open>deltaExtensions\<close> (the new registry and \<^verbatim>\<open>removedDueToLooping\<close>) and
  \<^verbatim>\<open>getAllExtensionDescriptions\<close>, and the resolver service's \<^verbatim>\<open>getConnectionData\<close>
  are parameters. The result is the service after the pass, the extensions named in
  the dependency-loop message (empty when no message is shown), and the argument of
  \<^verbatim>\<open>_doHandleExtensionPoints\<close>.
\<close>

definition us_scanAndHandleExtensions ::
  "(IExtensionDescription \<Rightarrow> ExtensionKind list)
   \<Rightarrow> (IExtensionDescription list \<Rightarrow> IExtensionDescription list)
   \<Rightarrow> ('reg \<Rightarrow> IExtensionDescription list \<Rightarrow> ExtensionIdentifier list
        \<Rightarrow> 'reg \<times> IExtensionDescription list)
   \<Rightarrow> ('reg \<Rightarrow> IExtensionDescription list)
   \<Rightarrow> (string \<Rightarrow> 'cd)
   \<Rightarrow> ('cd, 'reg) ExtensionService
   \<Rightarrow> IExtensionDescription list \<Rightarrow> IRemoteAgentEnvironment option
   \<Rightarrow> IExtensionDescription list \<Rightarrow> IRemoteAgentConnection option
   \<Rightarrow> ('cd, 'reg) ExtensionService \<times> IExtensionDescription list \<times> IExtensionDescription list"
  where
  "us_scanAndHandleExtensions getExtensionKind us_checkEnabledAndProposedAPI
     registry_deltaExtensions registry_getAllExtensionDescriptions getConnectionData
     this localExtensions remoteEnv remoteExtensions remoteAgentConnection =
     (let localExtensions = us_checkEnabledAndProposedAPI localExtensions;
          remoteExtensions = us_checkEnabledAndProposedAPI remoteExtensions;
          runningLocation =
            us_determineRunningLocation getExtensionKind localExtensions remoteExtensions
              (remoteEnv \<noteq> None \<and> remoteAgentConnection \<noteq> None);
          this = this\<lparr>us_runningLocation := runningLocation\<rparr>;
          localExtensions =
            filterByRunningLocation localExtensions (us_runningLocation this) LocalWebWorker;
          remoteExtensions =
            filterByRunningLocation remoteExtensions (us_runningLocation this) Remote
      in case registry_deltaExtensions (us_registry this)
                (remoteExtensions @ localExtensions) [] of
           (registry, removedDueToLooping) \<Rightarrow>
             (let this = this\<lparr>us_registry := registry\<rparr>;
                  this =
                    (case (remoteEnv, remoteAgentConnection) of
                       (Some env, Some connection) \<Rightarrow>
                         this\<lparr>us_remoteInitData := Some
                           \<lparr>connectionData = getConnectionData (remoteAuthority connection),
                            pid = env_pid env,
                            appRoot = env_appRoot env,
                            extensionHostLogsPath = env_extensionHostLogsPath env,
                            globalStorageHome = env_globalStorageHome env,
                            workspaceStorageHome = env_workspaceStorageHome env,
                            extensions = remoteExtensions,
                            allExtensions =
                              registry_getAllExtensionDescriptions (us_registry this)\<rparr>\<rparr>
                     | _ \<Rightarrow> this)
              in (this, removedDueToLooping,
                  registry_getAllExtensionDescriptions (us_registry this))))"


subsection \<open>Example records\<close>

text \<open>
  Concrete records for the evaluations below: one extension, \<^verbatim>\<open>Pub.Ext\<close>, scanned
  locally as a \<^verbatim>\<open>web\<close> extension and remotely (spelled in lower case) as a
  \<^verbatim>\<open>workspace\<close> extension; the two extensions of the specification's scenario,
  \<^verbatim>\<open>E1\<close> with tags \<^verbatim>\<open>[ui]\<close> and \<^verbatim>\<open>E2\<close> with tags \<^verbatim>\<open>[web]\<close>, both scanned locally;
  and \<^verbatim>\<open>E1\<close> as the remote side scans it.
\<close>

definition ext_local_web :: IExtensionDescription where
  "ext_local_web =
     \<lparr>identifier = ExtensionIdentifier ''Pub.Ext'', extensionLocation = \<lparr>scheme = ''https''\<rparr>,
      manifest_extensionKind = [''web'']\<rparr>"

definition ext_remote_workspace :: IExtensionDescription where
  "ext_remote_workspace =
     \<lparr>identifier = ExtensionIdentifier ''pub.ext'',
      extensionLocation = \<lparr>scheme = ''vscode-remote''\<rparr>,
      manifest_extensionKind = [''workspace'']\<rparr>"

definition E1 :: IExtensionDescription where
  "E1 = \<lparr>identifier = ExtensionIdentifier ''e1'', extensionLocation = \<lparr>scheme = ''https''\<rparr>,
         manifest_extensionKind = [''ui'']\<rparr>"

definition E2 :: IExtensionDescription where
  "E2 = \<lparr>identifier = ExtensionIdentifier ''e2'', extensionLocation = \<lparr>scheme = ''https''\<rparr>,
         manifest_extensionKind = [''web'']\<rparr>"

definition E1_remote :: IExtensionDescription where
  "E1_remote =
     \<lparr>identifier = ExtensionIdentifier ''e1'', extensionLocation = \<lparr>scheme = ''vscode-remote''\<rparr>,
      manifest_extensionKind = [''ui'']\<rparr>"

text \<open>A service before its first scan: an empty map and no snapshot.\<close>

definition initial_service :: "'reg \<Rightarrow> ('cd, 'reg) ExtensionService" where
  "initial_service registry =
     \<lparr>us_runningLocation = Map.empty, us_remoteInitData = None, us_registry = registry\<rparr>"

text \<open>
  Host managers for the evaluations: a host that accepts every delta, a host that
  rejects every delta, and \<^verbatim>\<open>_getExtensionHostManager\<close> given the manager (or
  \<^verbatim>\<open>null\<close>) of each of the two kinds.
\<close>

definition accepting_host :: ExtensionHostManager where
  "accepting_host toAdd toRemove = True"

definition rejecting_host :: ExtensionHostManager where
  "rejecting_host toAdd toRemove = False"

definition hosts ::
  "ExtensionHostManager option \<Rightarrow> ExtensionHostManager option
   \<Rightarrow> ExtensionHostKind \<Rightarrow> ExtensionHostManager option" where
  "hosts localWebWorkerExtensionHost remoteExtensionHost kind =
     (case kind of
        HostKind_LocalWebWorker \<Rightarrow> localWebWorkerExtensionHost
      | HostKind_Remote \<Rightarrow> remoteExtensionHost)"

section \<open>Properties\<close>

subsection \<open>Keys of the example records\<close>

lemma toKey_Pub_Ext: "toKey (ExtensionIdentifier ''Pub.Ext'') = ''pub.ext''"
  by code_simp

lemma toKey_pub_ext: "toKey (ExtensionIdentifier ''pub.ext'') = ''pub.ext''"
  by code_simp

lemma toKey_e1: "toKey (ExtensionIdentifier ''e1'') = ''e1''"
  by code_simp

lemma toKey_e2: "toKey (ExtensionIdentifier ''e2'') = ''e2''"
  by code_simp

lemmas example_keys = toKey_Pub_Ext toKey_pub_ext toKey_e1 toKey_e2

lemmas example_records =
  ext_local_web_def ext_remote_workspace_def E1_def E2_def E1_remote_def

subsection \<open>The resolver is a first-match scan\<close>

lemma pickRunningLocation_no_match:
  "list_all (\<lambda>t. \<not> tag_matches l r t) ks \<Longrightarrow> pickRunningLocation ks l r = None_location"
  by (induction ks) (auto simp: tag_matches_def)

lemma pickRunningLocation_skip_prefix:
  "list_all (\<lambda>t. \<not> tag_matches l r t) pre \<Longrightarrow>
   pickRunningLocation (pre @ ks) l r = pickRunningLocation ks l r"
  by (induction pre) (auto simp: tag_matches_def)

lemma pickRunningLocation_head_match:
  "tag_matches l r t \<Longrightarrow> pickRunningLocation (t # post) l r = tag_decision t"
  by (auto simp: tag_matches_def tag_decision_def)

lemma pickRunningLocation_resolve: "pickRunningLocation ks l r = resolve ks l r"
  by (induction ks) (auto simp: resolve_def tag_matches_def tag_decision_def)

text \<open>
  Claim C1. For every sequence of tags and both booleans, \<^verbatim>\<open>pickRunningLocation\<close> is
  the first-match scan of the specification: it equals \<^verbatim>\<open>resolve\<close>; on the empty
  sequence it returns \<^verbatim>\<open>None\<close>; when no tag matches it returns \<^verbatim>\<open>None\<close>; and when
  the tags before a matching tag \<^verbatim>\<open>t\<close> do not match, the result is \<^verbatim>\<open>Remote\<close> for
  \<^verbatim>\<open>ui\<close> and \<^verbatim>\<open>workspace\<close> (which match only when installed remotely) and
  \<^verbatim>\<open>LocalWebWorker\<close> for \<^verbatim>\<open>web\<close> (which matches only when installed locally),
  whatever follows \<^verbatim>\<open>t\<close>. The function is total: it has a value of the enum on
  every input and no failure branch.
\<close>

theorem pickRunningLocation_first_match_wins:
  "pickRunningLocation ks l r = resolve ks l r
   \<and> pickRunningLocation [] l r = None_location
   \<and> (list_all (\<lambda>t. \<not> tag_matches l r t) ks \<longrightarrow> pickRunningLocation ks l r = None_location)
   \<and> (list_all (\<lambda>t. \<not> tag_matches l r t) pre \<and> tag_matches l r t \<longrightarrow>
        pickRunningLocation (pre @ t # post) l r
          = (if t = ''web'' then LocalWebWorker else Remote)
        \<and> (pickRunningLocation (pre @ t # post) l r = Remote
             \<longleftrightarrow> (t = ''ui'' \<or> t = ''workspace'') \<and> r)
        \<and> (pickRunningLocation (pre @ t # post) l r = LocalWebWorker
             \<longleftrightarrow> t = ''web'' \<and> l))"
proof -
  have skip: "pickRunningLocation (pre @ t # post) l r = tag_decision t"
    if "list_all (\<lambda>t. \<not> tag_matches l r t) pre" and "tag_matches l r t"
    using that pickRunningLocation_skip_prefix [of l r pre "t # post"]
      pickRunningLocation_head_match [of l r t post]
    by (simp del: pickRunningLocation.simps)
  have dec: "tag_decision t = (if t = ''web'' then LocalWebWorker else Remote)"
    by (simp add: tag_decision_def)
  have m: "tag_matches l r t \<Longrightarrow>
      ((if t = ''web'' then LocalWebWorker else Remote) = Remote
          \<longleftrightarrow> (t = ''ui'' \<or> t = ''workspace'') \<and> r)
      \<and> ((if t = ''web'' then LocalWebWorker else Remote) = LocalWebWorker
          \<longleftrightarrow> t = ''web'' \<and> l)"
    by (auto simp: tag_matches_def)
  show ?thesis
    using skip dec m
    by (simp add: pickRunningLocation_resolve [symmetric] pickRunningLocation_no_match)
qed

theorem pickRunningLocation_first_match_wins_witness:
  "pickRunningLocation [''web'', ''ui'', ''workspace''] False True = Remote
   \<and> resolve [''web'', ''ui'', ''workspace''] False True = Remote
   \<and> pickRunningLocation [''web'', ''ui''] True True = LocalWebWorker
   \<and> pickRunningLocation [''ui'', ''workspace''] True False = None_location
   \<and> list_all (\<lambda>t. \<not> tag_matches False True t) [''web'']
   \<and> tag_matches False True ''ui''"
  using pickRunningLocation_first_match_wins
    [of "[''web'', ''ui'', ''workspace'']" False True "[''web'']" "''ui''" "[''workspace'']"]
  by (simp add: tag_matches_def)

subsection \<open>Folds over a catalog\<close>

lemma fold_insert_keys:
  "fold (\<lambda>ext s. insert (toKey (identifier ext)) s) xs s0 = keys_of xs \<union> s0"
  by (induction xs arbitrary: s0) (auto simp: keys_of_def)

lemma fold_upd_by_key:
  "fold (\<lambda>ext m. m(toKey (identifier ext) \<mapsto> g (toKey (identifier ext)))) xs m0
     = (\<lambda>k. if k \<in> keys_of xs then Some (g k) else m0 k)"
  by (induction xs arbitrary: m0) (auto simp: keys_of_def fun_eq_iff)

lemma fold_upd_last:
  "fold (\<lambda>ext m. m(toKey (identifier ext) \<mapsto> f ext)) xs m0 k
     = (if records_of k xs = [] then m0 k else Some (f (last (records_of k xs))))"
  by (induction xs rule: rev_induct) (auto simp: records_of_def)

lemma records_of_empty_iff: "records_of k xs = [] \<longleftrightarrow> k \<notin> keys_of xs"
  by (auto simp: records_of_def keys_of_def filter_empty_conv)

lemma us_pickRunningLocation_by_key:
  "us_pickRunningLocation ls rs K ext
     = pickRunningLocation (case K (toKey (identifier ext)) of Some kinds \<Rightarrow> kinds | None \<Rightarrow> [])
         (toKey (identifier ext) \<in> ls) (toKey (identifier ext) \<in> rs)"
  by (simp add: us_pickRunningLocation_def)

lemma determineRunningLocation_closed_form:
  "determineRunningLocation l r K h
     = (\<lambda>k. if k \<in> keys_of l \<union> keys_of r
             then Some (pickRunningLocation (case K k of Some kinds \<Rightarrow> kinds | None \<Rightarrow> [])
                          (k \<in> keys_of l) (k \<in> keys_of r))
             else None)"
  unfolding determineRunningLocation_def Let_def us_pickRunningLocation_by_key fold_insert_keys
  by (simp add: fold_upd_by_key [where g = "\<lambda>k. pickRunningLocation
        (case K k of Some kinds \<Rightarrow> kinds | None \<Rightarrow> []) (k \<in> keys_of l) (k \<in> keys_of r)"]
      fun_eq_iff)

subsection \<open>The table is a function of the key sets\<close>

text \<open>
  Claim C7. The table that \<^verbatim>\<open>determineRunningLocation\<close> builds is determined by its
  inputs alone: its entry at a key is present exactly when the key is a key of the
  local or of the remote catalog, and is then \<^verbatim>\<open>pickRunningLocation\<close> of the kinds
  the kind map holds for the key (none when absent) and of the key's membership in
  the two catalogs. So two calls on the same inputs give the same table, and more: two
  calls on catalogs that hold the same keys, in any order and with any repetition
  (and with either value of the flag), give the same entries with the same decisions.
  The only order that matters is the order of the declared tags.
\<close>

theorem determineRunningLocation_deterministic:
  "determineRunningLocation l r K h
     = (\<lambda>k. if k \<in> keys_of l \<union> keys_of r
             then Some (pickRunningLocation (case K k of Some kinds \<Rightarrow> kinds | None \<Rightarrow> [])
                          (k \<in> keys_of l) (k \<in> keys_of r))
             else None)
   \<and> (keys_of l' = keys_of l \<and> keys_of r' = keys_of r \<longrightarrow>
        determineRunningLocation l' r' K h' = determineRunningLocation l r K h)"
  by (auto simp: determineRunningLocation_closed_form)

theorem determineRunningLocation_deterministic_witness:
  "keys_of [E2, ext_local_web, E2] = keys_of [ext_local_web, E2]
   \<and> keys_of [ext_remote_workspace] = keys_of [ext_remote_workspace, ext_remote_workspace]
   \<and> determineRunningLocation [E2, ext_local_web, E2] [ext_remote_workspace]
         [''pub.ext'' \<mapsto> [''workspace''], ''e2'' \<mapsto> [''web'']] True
       = determineRunningLocation [ext_local_web, E2]
           [ext_remote_workspace, ext_remote_workspace]
           [''pub.ext'' \<mapsto> [''workspace''], ''e2'' \<mapsto> [''web'']] True"
  using determineRunningLocation_deterministic
    [of "[ext_local_web, E2]" "[ext_remote_workspace, ext_remote_workspace]"
        "[''pub.ext'' \<mapsto> [''workspace''], ''e2'' \<mapsto> [''web'']]" True
        "[E2, ext_local_web, E2]" "[ext_remote_workspace]" True]
  by (simp add: keys_of_def insert_commute)

subsection \<open>The remote flag\<close>

text \<open>
  Claim C9. The parameter \<^verbatim>\<open>hasRemote\<close> has no influence on the table:
  \<^verbatim>\<open>determineRunningLocation\<close> and \<^verbatim>\<open>_determineRunningLocation\<close> return the same table
  for both values of the flag, for all catalogs and every kind map.
\<close>

theorem hasRemote_is_ignored:
  "determineRunningLocation l r K h = determineRunningLocation l r K h'
   \<and> us_determineRunningLocation g l r h = us_determineRunningLocation g l r h'
   \<and> determineRunningLocation l r K True = determineRunningLocation l r K False
   \<and> us_determineRunningLocation g l r True = us_determineRunningLocation g l r False"
  by (simp add: us_determineRunningLocation_def determineRunningLocation_def)

theorem hasRemote_is_ignored_witness:
  "us_determineRunningLocation manifest_extensionKind [E1, E2] [E1_remote] True
     = us_determineRunningLocation manifest_extensionKind [E1, E2] [E1_remote] False
   \<and> us_determineRunningLocation manifest_extensionKind [E1, E2] [E1_remote] False ''e1''
       = Some Remote
   \<and> us_determineRunningLocation manifest_extensionKind [E1, E2] [] True ''e1''
       = Some None_location"
  using hasRemote_is_ignored [of "[E1, E2]" "[E1_remote]" _ True False manifest_extensionKind]
  by (simp add: us_determineRunningLocation_def determineRunningLocation_closed_form
      keys_of_def example_records example_keys del: toKey.simps)

subsection \<open>Extensions that declare only \<^verbatim>\<open>ui\<close>\<close>

text \<open>
  With a remote environment present (\<^verbatim>\<open>hasRemote\<close> true), the extension \<^verbatim>\<open>E1\<close>, which
  declares exactly \<^verbatim>\<open>[ui]\<close> and is in the local catalog only, gets the decision
  \<^verbatim>\<open>None\<close>, not \<^verbatim>\<open>Remote\<close>: the \<^verbatim>\<open>ui\<close> rule tests \<^verbatim>\<open>isInstalledRemotely\<close>.
\<close>

theorem ui_only_counterexample:
  "pickRunningLocation [''ui''] True False = None_location
   \<and> E1 \<in> set [E1, E2]
   \<and> manifest_extensionKind E1 = [''ui'']
   \<and> us_determineRunningLocation manifest_extensionKind [E1, E2] [] True (toKey (identifier E1))
       = Some None_location
   \<and> us_determineRunningLocation manifest_extensionKind [E1, E2] [] True (toKey (identifier E1))
       \<noteq> Some Remote"
  by (simp add: us_determineRunningLocation_def determineRunningLocation_closed_form
      keys_of_def example_records example_keys del: toKey.simps)

text \<open>
  The kinds that \<^verbatim>\<open>_determineRunningLocation\<close> resolves for an identity are those of
  one record, the last one written to the kind map. When the local record of \<^verbatim>\<open>e1\<close>
  declares \<^verbatim>\<open>[ui]\<close> and the remote record of \<^verbatim>\<open>e1\<close> declares \<^verbatim>\<open>[web]\<close>, the
  identity resolves with \<^verbatim>\<open>[web]\<close> and its decision is \<^verbatim>\<open>LocalWebWorker\<close>. The
  statement about \<^verbatim>\<open>[ui]\<close> extensions is therefore about identities all of whose
  records declare \<^verbatim>\<open>[ui]\<close>.
\<close>

lemma ui_local_web_remote_example:
  "us_determineRunningLocation manifest_extensionKind [E1]
     [E1_remote\<lparr>manifest_extensionKind := [''web'']\<rparr>] True ''e1'' = Some LocalWebWorker"
  by (simp add: us_determineRunningLocation_def determineRunningLocation_closed_form
      keys_of_def example_records example_keys del: toKey.simps)

lemma fold_kinds_uniform:
  "list_all (\<lambda>ext. toKey (identifier ext) = k \<longrightarrow> g ext = v) xs \<Longrightarrow>
   fold (\<lambda>ext m. m(toKey (identifier ext) \<mapsto> g ext)) xs m0 k
     = (if k \<in> keys_of xs then Some v else m0 k)"
  by (induction xs arbitrary: m0) (simp_all add: keys_of_def)

lemma us_determineRunningLocation_uniform_kinds:
  assumes "list_all (\<lambda>ext. toKey (identifier ext) = k \<longrightarrow> g ext = v) (l @ r)"
    and "k \<in> keys_of l \<union> keys_of r"
  shows "us_determineRunningLocation g l r h k
           = Some (pickRunningLocation v (k \<in> keys_of l) (k \<in> keys_of r))"
proof -
  have l: "list_all (\<lambda>ext. toKey (identifier ext) = k \<longrightarrow> g ext = v) l"
    and r: "list_all (\<lambda>ext. toKey (identifier ext) = k \<longrightarrow> g ext = v) r"
    using assms(1) by simp_all
  have "fold (\<lambda>ext m. m(toKey (identifier ext) \<mapsto> g ext)) r
          (fold (\<lambda>ext m. m(toKey (identifier ext) \<mapsto> g ext)) l Map.empty) k = Some v"
    using assms(2) by (auto simp: fold_kinds_uniform [OF r] fold_kinds_uniform [OF l])
  then show ?thesis
    using assms(2)
    by (simp add: us_determineRunningLocation_def determineRunningLocation_closed_form)
qed

text \<open>
  Claim C3, amended. The resolver on the tag list \<^verbatim>\<open>[ui]\<close> returns \<^verbatim>\<open>Remote\<close> when
  the extension is installed remotely and \<^verbatim>\<open>None\<close> otherwise, never
  \<^verbatim>\<open>LocalWebWorker\<close>, whether or not it is installed locally. For every identity of
  the catalogs all of whose records, local and remote, declare exactly \<^verbatim>\<open>[ui]\<close>
  (that is, \<^verbatim>\<open>getExtensionKind\<close> gives \<^verbatim>\<open>[ui]\<close> on each), the decision in the table of
  \<^verbatim>\<open>_determineRunningLocation\<close> is \<^verbatim>\<open>Remote\<close> when the identity is in the remote
  catalog and \<^verbatim>\<open>None\<close> otherwise, whatever the remote flag is; it is never
  \<^verbatim>\<open>LocalWebWorker\<close>, and no record of the identity is among the extensions filtered
  for the local web worker. The same holds for \<^verbatim>\<open>determineRunningLocation\<close> with any
  kind map that holds \<^verbatim>\<open>[ui]\<close> for the identity.
\<close>

theorem ui_only_runs_remotely_iff_installed_remotely:
  "pickRunningLocation [''ui''] l r = (if r then Remote else None_location)
   \<and> pickRunningLocation [''ui''] l r \<noteq> LocalWebWorker
   \<and> (K k = Some [''ui''] \<and> k \<in> keys_of localExtensions \<union> keys_of remoteExtensions \<longrightarrow>
        determineRunningLocation localExtensions remoteExtensions K hasRemote k
          = Some (if k \<in> keys_of remoteExtensions then Remote else None_location))
   \<and> (list_all (\<lambda>ext. toKey (identifier ext) = k \<longrightarrow> getExtensionKind ext = [''ui''])
          (localExtensions @ remoteExtensions)
        \<and> k \<in> keys_of localExtensions \<union> keys_of remoteExtensions \<longrightarrow>
        us_determineRunningLocation getExtensionKind localExtensions remoteExtensions hasRemote k
          = Some (if k \<in> keys_of remoteExtensions then Remote else None_location)
        \<and> us_determineRunningLocation getExtensionKind localExtensions remoteExtensions hasRemote k
          \<noteq> Some LocalWebWorker
        \<and> list_all (\<lambda>ext. toKey (identifier ext) \<noteq> k)
             (filterByRunningLocation localExtensions
                (us_determineRunningLocation getExtensionKind localExtensions remoteExtensions
                   hasRemote) LocalWebWorker))"
proof -
  have 1: "pickRunningLocation [''ui''] l r = (if r then Remote else None_location)"
    and 2: "pickRunningLocation [''ui''] l r \<noteq> LocalWebWorker"
    by simp_all
  have 3: "determineRunningLocation localExtensions remoteExtensions K hasRemote k
          = Some (if k \<in> keys_of remoteExtensions then Remote else None_location)"
    if "K k = Some [''ui''] \<and> k \<in> keys_of localExtensions \<union> keys_of remoteExtensions"
    using that by (simp add: determineRunningLocation_closed_form)
  have 4: "us_determineRunningLocation getExtensionKind localExtensions remoteExtensions hasRemote k
          = Some (if k \<in> keys_of remoteExtensions then Remote else None_location)"
    if "list_all (\<lambda>ext. toKey (identifier ext) = k \<longrightarrow> getExtensionKind ext = [''ui''])
          (localExtensions @ remoteExtensions)
        \<and> k \<in> keys_of localExtensions \<union> keys_of remoteExtensions"
    using us_determineRunningLocation_uniform_kinds
      [OF that [THEN conjunct1] that [THEN conjunct2], of hasRemote]
    by simp
  have 5: "us_determineRunningLocation getExtensionKind localExtensions remoteExtensions hasRemote k
          \<noteq> Some LocalWebWorker"
    if "list_all (\<lambda>ext. toKey (identifier ext) = k \<longrightarrow> getExtensionKind ext = [''ui''])
          (localExtensions @ remoteExtensions)
        \<and> k \<in> keys_of localExtensions \<union> keys_of remoteExtensions"
    unfolding 4 [OF that] by simp
  have 6: "list_all (\<lambda>ext. toKey (identifier ext) \<noteq> k)
             (filterByRunningLocation localExtensions
                (us_determineRunningLocation getExtensionKind localExtensions remoteExtensions
                   hasRemote) LocalWebWorker)"
    if "list_all (\<lambda>ext. toKey (identifier ext) = k \<longrightarrow> getExtensionKind ext = [''ui''])
          (localExtensions @ remoteExtensions)
        \<and> k \<in> keys_of localExtensions \<union> keys_of remoteExtensions"
    unfolding filterByRunningLocation_def list_all_iff
    using 5 [OF that] by auto
  show ?thesis
    by (intro conjI impI 1 2 3 4 5 6) simp_all
qed

theorem ui_only_runs_remotely_iff_installed_remotely_witness:
  "list_all (\<lambda>ext. toKey (identifier ext) = ''e1'' \<longrightarrow> manifest_extensionKind ext = [''ui''])
     ([E1, E2] @ [E1_remote])
   \<and> ''e1'' \<in> keys_of [E1, E2] \<union> keys_of [E1_remote]
   \<and> ''e1'' \<in> keys_of [E1_remote]
   \<and> us_determineRunningLocation manifest_extensionKind [E1, E2] [E1_remote] True ''e1''
       = Some Remote"
proof -
  have h: "list_all (\<lambda>ext. toKey (identifier ext) = ''e1'' \<longrightarrow> manifest_extensionKind ext = [''ui''])
     ([E1, E2] @ [E1_remote])"
    by (simp add: example_records example_keys del: toKey.simps)
  have k: "''e1'' \<in> keys_of [E1, E2] \<union> keys_of [E1_remote]"
    and kr: "''e1'' \<in> keys_of [E1_remote]"
    by (simp_all add: keys_of_def example_records example_keys del: toKey.simps)
  note t = ui_only_runs_remotely_iff_installed_remotely
    [where k = "''e1''" and localExtensions = "[E1, E2]" and remoteExtensions = "[E1_remote]"
       and getExtensionKind = manifest_extensionKind and hasRemote = True,
     THEN conjunct2, THEN conjunct2, THEN conjunct2, rule_format, OF conjI [OF h k],
     THEN conjunct1]
  have d: "us_determineRunningLocation manifest_extensionKind [E1, E2] [E1_remote] True ''e1''
       = Some Remote"
    using t kr by simp
  show ?thesis
    by (intro conjI h k kr d)
qed

subsection \<open>An identity in both catalogs\<close>

lemma kinds_fold_remote:
  "k \<in> keys_of r \<Longrightarrow>
   fold (\<lambda>ext m. m(toKey (identifier ext) \<mapsto> g ext)) r m0 k = Some (g (last (records_of k r)))"
  by (simp add: fold_upd_last records_of_empty_iff)

lemma us_determineRunningLocation_remote_key:
  "k \<in> keys_of r \<Longrightarrow>
   us_determineRunningLocation g l r h k
     = Some (pickRunningLocation (g (last (records_of k r))) (k \<in> keys_of l) True)"
  by (simp add: us_determineRunningLocation_def determineRunningLocation_closed_form
      kinds_fold_remote)

text \<open>
  Claim C10. For every key of the remote catalog, the kinds that
  \<^verbatim>\<open>_determineRunningLocation\<close> resolves are those of the remote catalog's (last) record
  with that key: the kind map is filled from the local records first and overwritten
  by the remote ones. So the entry at such a key does not change when the local
  catalog is replaced by any catalog with the same keys (in particular by records
  that declare other tags), nor when \<^verbatim>\<open>getExtensionKind\<close> changes on records that are
  not in the remote catalog. Keys are compared after \<^verbatim>\<open>toKey\<close>, so identifiers that
  differ in case are the same identity.
\<close>

theorem remote_record_decides_kinds:
  "k \<in> keys_of remoteExtensions \<longrightarrow>
     us_determineRunningLocation g localExtensions remoteExtensions h k
       = Some (pickRunningLocation (g (last (records_of k remoteExtensions)))
                 (k \<in> keys_of localExtensions) True)
     \<and> (keys_of localExtensions' = keys_of localExtensions
          \<and> list_all (\<lambda>ext. g' ext = g ext) remoteExtensions \<longrightarrow>
        us_determineRunningLocation g' localExtensions' remoteExtensions h k
          = us_determineRunningLocation g localExtensions remoteExtensions h k)"
proof (intro impI conjI)
  assume k: "k \<in> keys_of remoteExtensions"
  show "us_determineRunningLocation g localExtensions remoteExtensions h k
       = Some (pickRunningLocation (g (last (records_of k remoteExtensions)))
                 (k \<in> keys_of localExtensions) True)"
    using k by (rule us_determineRunningLocation_remote_key)
  assume same: "keys_of localExtensions' = keys_of localExtensions
          \<and> list_all (\<lambda>ext. g' ext = g ext) remoteExtensions"
  have "records_of k remoteExtensions \<noteq> []"
    using k by (simp add: records_of_empty_iff)
  then have "last (records_of k remoteExtensions) \<in> set remoteExtensions"
    using last_in_set [of "records_of k remoteExtensions"] by (auto simp: records_of_def)
  then have "g' (last (records_of k remoteExtensions)) = g (last (records_of k remoteExtensions))"
    using same by (simp add: list_all_iff)
  then show "us_determineRunningLocation g' localExtensions' remoteExtensions h k
          = us_determineRunningLocation g localExtensions remoteExtensions h k"
    using k same by (simp add: us_determineRunningLocation_remote_key)
qed

theorem remote_record_decides_kinds_witness:
  "''pub.ext'' \<in> keys_of [ext_remote_workspace]
   \<and> keys_of [ext_local_web\<lparr>manifest_extensionKind := [''ui'']\<rparr>] = keys_of [ext_local_web]
   \<and> list_all (\<lambda>ext. manifest_extensionKind ext = manifest_extensionKind ext) [ext_remote_workspace]
   \<and> toKey (identifier ext_local_web) = toKey (identifier ext_remote_workspace)
   \<and> identifier ext_local_web \<noteq> identifier ext_remote_workspace
   \<and> us_determineRunningLocation manifest_extensionKind [ext_local_web]
         [ext_remote_workspace] True ''pub.ext'' = Some Remote
   \<and> us_determineRunningLocation manifest_extensionKind
         [ext_local_web\<lparr>manifest_extensionKind := [''ui'']\<rparr>]
         [ext_remote_workspace] True ''pub.ext'' = Some Remote
   \<and> us_determineRunningLocation manifest_extensionKind [ext_local_web] [] True ''pub.ext''
       = Some LocalWebWorker"
  using remote_record_decides_kinds
    [of "''pub.ext''" "[ext_remote_workspace]" manifest_extensionKind "[ext_local_web]" True
        "[ext_local_web\<lparr>manifest_extensionKind := [''ui'']\<rparr>]" manifest_extensionKind]
  by (simp add: us_determineRunningLocation_def determineRunningLocation_closed_form
      keys_of_def records_of_def example_records example_keys del: toKey.simps)

subsection \<open>The two loops of an incremental update\<close>

lemma add_step_simp:
  "add_step g ext (rl, la, ra)
     = (rl(toKey (identifier ext) \<mapsto> added_location g ext),
        la @ (if added_location g ext = LocalWebWorker then [ext] else []),
        ra @ (if added_location g ext = Remote then [ext] else []))"
  by (simp add: add_step_def Let_def)

lemma remove_step_simp:
  "remove_step i (rl, la, ra)
     = (rl(toKey i := None),
        la @ (if rl (toKey i) = Some LocalWebWorker then [i] else []),
        ra @ (if rl (toKey i) = Some Remote then [i] else []))"
  by (simp add: remove_step_def Let_def)

lemma fold_add_step:
  "fold (add_step g) xs (rl, la, ra)
     = (fold (\<lambda>ext m. m(toKey (identifier ext) \<mapsto> added_location g ext)) xs rl,
        la @ filter (\<lambda>ext. added_location g ext = LocalWebWorker) xs,
        ra @ filter (\<lambda>ext. added_location g ext = Remote) xs)"
  by (induction xs arbitrary: rl la ra) (auto simp: add_step_simp)

lemma partition_toAdd_eq:
  "partition_toAdd g toAdd rl
     = (fold (\<lambda>ext m. m(toKey (identifier ext) \<mapsto> added_location g ext)) toAdd rl,
        filter (\<lambda>ext. added_location g ext = LocalWebWorker) toAdd,
        filter (\<lambda>ext. added_location g ext = Remote) toAdd)"
  by (simp add: partition_toAdd_def fold_add_step)

lemma afterAdd_entry:
  "fst (partition_toAdd g toAdd rl) k
     = (if k \<in> keys_of toAdd then Some (added_location g (last (records_of k toAdd)))
        else rl k)"
  by (simp add: partition_toAdd_eq fold_upd_last records_of_empty_iff)

lemma records_of_distinct:
  "distinct (map (\<lambda>ext. toKey (identifier ext)) xs) \<Longrightarrow> e \<in> set xs \<Longrightarrow>
   records_of (toKey (identifier e)) xs = [e]"
  by (induction xs) (auto simp: records_of_def filter_empty_conv image_iff)

lemma fold_remove_step_inv:
  "fold remove_step xs (rl, la, ra) = (m, a, b) \<Longrightarrow>
   m = (\<lambda>k. if k \<in> toKey ` set xs then None else rl k)
   \<and> toKey ` set a = toKey ` set la \<union> {k \<in> toKey ` set xs. rl k = Some LocalWebWorker}
   \<and> toKey ` set b = toKey ` set ra \<union> {k \<in> toKey ` set xs. rl k = Some Remote}
   \<and> set a \<subseteq> set la \<union> set xs \<and> set b \<subseteq> set ra \<union> set xs"
proof (induction xs arbitrary: m a b rule: rev_induct)
  case Nil
  then show ?case by auto
next
  case (snoc x xs)
  obtain m0 a0 b0 where f: "fold remove_step xs (rl, la, ra) = (m0, a0, b0)"
    by (cases "fold remove_step xs (rl, la, ra)") auto
  note ih = snoc.IH [OF f]
  have m0: "m0 = (\<lambda>k. if k \<in> toKey ` set xs then None else rl k)"
    using ih by blast
  have step: "(m, a, b) = remove_step x (m0, a0, b0)"
    using snoc.prems f by simp
  have m: "m = m0(toKey x := None)"
    and a: "a = a0 @ (if m0 (toKey x) = Some LocalWebWorker then [x] else [])"
    and b: "b = b0 @ (if m0 (toKey x) = Some Remote then [x] else [])"
    using step by (simp_all add: remove_step_simp)
  have 1: "m = (\<lambda>k. if k \<in> toKey ` set (xs @ [x]) then None else rl k)"
    unfolding m m0 by (auto simp: fun_eq_iff)
  have 2: "toKey ` set a
      = toKey ` set la \<union> {k \<in> toKey ` set (xs @ [x]). rl k = Some LocalWebWorker}"
    unfolding a using ih by (auto simp: m0)
  have 3: "toKey ` set b
      = toKey ` set ra \<union> {k \<in> toKey ` set (xs @ [x]). rl k = Some Remote}"
    unfolding b using ih by (auto simp: m0)
  have 4: "set a \<subseteq> set la \<union> set (xs @ [x])" "set b \<subseteq> set ra \<union> set (xs @ [x])"
    unfolding a b using ih by auto
  show ?case using 1 2 3 4 by blast
qed

lemma fold_remove_step_distinct:
  "distinct (map toKey xs) \<Longrightarrow> fold remove_step xs (rl, la, ra) = (m, a, b) \<Longrightarrow>
   a = la @ filter (\<lambda>i. rl (toKey i) = Some LocalWebWorker) xs
   \<and> b = ra @ filter (\<lambda>i. rl (toKey i) = Some Remote) xs"
proof (induction xs arbitrary: m a b rule: rev_induct)
  case Nil
  then show ?case by auto
next
  case (snoc x xs)
  obtain m0 a0 b0 where f: "fold remove_step xs (rl, la, ra) = (m0, a0, b0)"
    by (cases "fold remove_step xs (rl, la, ra)") auto
  have d: "distinct (map toKey xs)" and fresh: "toKey x \<notin> toKey ` set xs"
    using snoc.prems(1) by auto
  note ih = snoc.IH [OF d f]
  have "m0 = (\<lambda>k. if k \<in> toKey ` set xs then None else rl k)"
    using fold_remove_step_inv [OF f] by blast
  then have m0x: "m0 (toKey x) = rl (toKey x)"
    using fresh by simp
  have step: "(m, a, b) = remove_step x (m0, a0, b0)"
    using snoc.prems(2) f by simp
  show ?case
    using step ih m0x by (simp add: remove_step_simp)
qed

subsection \<open>What an incremental update sends\<close>

lemma us_updateExtensionsOnExtHosts_unfold:
  "partition_toAdd g toAdd (us_runningLocation this) = (afterAdd, la, ra) \<Longrightarrow>
   partition_toRemove toRemove afterAdd = (afterRemove, lr, rr) \<Longrightarrow>
   us_updateExtensionsOnExtHosts g mgr this toAdd toRemove
     = (fst (dispatch_local mgr la lr ra rr), this\<lparr>us_runningLocation := afterRemove\<rparr>,
        snd (dispatch_local mgr la lr ra rr))"
  by (simp add: us_updateExtensionsOnExtHosts_def split: prod.splits)

lemma dispatch_remote_calls:
  "snd (dispatch_remote mgr ra rr issued) = issued
   \<or> snd (dispatch_remote mgr ra rr issued) = issued @ [DeltaExtensions HostKind_Remote ra rr]"
  by (simp add: dispatch_remote_def split: option.splits)

lemma dispatch_local_calls:
  "set (snd (dispatch_local mgr la lr ra rr))
     \<subseteq> {DeltaExtensions HostKind_LocalWebWorker la lr, DeltaExtensions HostKind_Remote ra rr}"
  using dispatch_remote_calls [of mgr ra rr "[]"]
    dispatch_remote_calls [of mgr ra rr "[DeltaExtensions HostKind_LocalWebWorker la lr]"]
  by (auto simp: dispatch_local_def split: option.splits)

lemma issued_add_lists:
  "list_all (\<lambda>c. case c of DeltaExtensions kind a rm \<Rightarrow>
       a = (if kind = HostKind_LocalWebWorker then la else ra))
     (snd (dispatch_local mgr la lr ra rr))"
  using dispatch_local_calls [of mgr la lr ra rr] by (auto simp: list_all_iff)

lemma issued_remove_lists:
  "list_all (\<lambda>c. case c of DeltaExtensions kind a rm \<Rightarrow>
       rm = (if kind = HostKind_LocalWebWorker then lr else rr))
     (snd (dispatch_local mgr la lr ra rr))"
  using dispatch_local_calls [of mgr la lr ra rr] by (auto simp: list_all_iff)

lemma filter_keys_disjoint:
  assumes "distinct (map f xs)" and "\<And>x. P x \<Longrightarrow> Q x \<Longrightarrow> False"
  shows "f ` set (filter P xs) \<inter> f ` set (filter Q xs) = {}"
proof -
  have inj: "inj_on f (set xs)"
    using assms(1) by (simp add: distinct_map)
  show ?thesis
  proof (rule ccontr)
    assume "f ` set (filter P xs) \<inter> f ` set (filter Q xs) \<noteq> {}"
    then obtain k where "k \<in> f ` set (filter P xs)" and "k \<in> f ` set (filter Q xs)"
      by blast
    then obtain x y where x: "x \<in> set xs" "P x" "f x = k" and y: "y \<in> set xs" "Q y" "f y = k"
      by auto
    have "x = y"
      using inj_onD [OF inj _ x(1) y(1)] x(3) y(3) by simp
    then show False
      using assms(2) x(2) y(2) by blast
  qed
qed

lemma afterAdd_distinct:
  assumes part: "partition_toAdd g toAdd rl = (afterAdd, localToAdd, remoteToAdd)"
    and d: "distinct (map (\<lambda>e. toKey (identifier e)) toAdd)"
  shows "list_all (\<lambda>e. afterAdd (toKey (identifier e)) = Some (added_location g e)) toAdd"
proof -
  have a: "afterAdd k = fst (partition_toAdd g toAdd rl) k" for k
    using part by simp
  have "afterAdd (toKey (identifier e)) = Some (added_location g e)" if e: "e \<in> set toAdd" for e
  proof -
    have "toKey (identifier e) \<in> keys_of toAdd"
      using e by (simp add: keys_of_def)
    then show ?thesis
      by (simp add: a afterAdd_entry records_of_distinct [OF d e])
  qed
  then show ?thesis
    by (simp add: list_all_iff)
qed

lemmas update_eval =
  us_updateExtensionsOnExtHosts_def partition_toAdd_def partition_toRemove_def
  add_step_simp remove_step_simp added_location_def dispatch_local_def dispatch_remote_def
  initial_service_def Schemas_vscodeRemote_def example_records example_keys
  hosts_def accepting_host_def rejecting_host_def

subsection \<open>The partition of the added records\<close>

text \<open>
  An update that adds two records of one identity, one scanned locally as a \<^verbatim>\<open>web\<close>
  extension and one scanned remotely as a \<^verbatim>\<open>workspace\<close> extension, sends the first
  to the local host and the second to the remote host: the identity \<^verbatim>\<open>pub.ext\<close> is
  in both add lists, and the table holds \<^verbatim>\<open>Remote\<close> for it although a record of it
  went to the local host.
\<close>

theorem added_identity_in_both_lists_counterexample:
  "us_updateExtensionsOnExtHosts manifest_extensionKind (hosts (Some accepting_host) (Some accepting_host))
       (initial_service () :: (unit, unit) ExtensionService)
       [ext_local_web, ext_remote_workspace] []
     = (Inr (),
        (initial_service ())\<lparr>us_runningLocation := [''pub.ext'' \<mapsto> Remote]\<rparr>,
        [DeltaExtensions HostKind_LocalWebWorker [ext_local_web] [],
         DeltaExtensions HostKind_Remote [ext_remote_workspace] []])
   \<and> toKey (identifier ext_local_web) = ''pub.ext''
   \<and> toKey (identifier ext_remote_workspace) = ''pub.ext''
   \<and> keys_of [ext_local_web] \<inter> keys_of [ext_remote_workspace] = {''pub.ext''}"
  by (simp add: update_eval keys_of_def del: toKey.simps)

text \<open>
  Claim C5, amended. In every update, the location of an added record is picked from
  the record itself (its kinds and the scheme of its location) and written to the
  table. The local add list is exactly the added records whose picked location is
  \<^verbatim>\<open>LocalWebWorker\<close>, the remote add list exactly those whose picked location is
  \<^verbatim>\<open>Remote\<close>, in the order they were added, and these are the add lists of every call
  the update issues; a record whose picked location is \<^verbatim>\<open>None\<close> is in neither
  list, and no record is in both. When the added records have pairwise distinct
  identities, the picked location of each is its decision in the table after the
  loop, and no identity is in both add lists.
\<close>

theorem added_records_partition:
  "us_updateExtensionsOnExtHosts g mgr this toAdd toRemove = (outcome, this', issued)
   \<and> partition_toAdd g toAdd (us_runningLocation this) = (afterAdd, localToAdd, remoteToAdd)
   \<longrightarrow>
     localToAdd = filter (\<lambda>e. added_location g e = LocalWebWorker) toAdd
   \<and> remoteToAdd = filter (\<lambda>e. added_location g e = Remote) toAdd
   \<and> list_all (\<lambda>c. case c of DeltaExtensions kind a rm \<Rightarrow>
          a = (if kind = HostKind_LocalWebWorker then localToAdd else remoteToAdd)) issued
   \<and> list_all (\<lambda>e.
          (added_location g e = None_location \<longrightarrow> e \<notin> set localToAdd \<and> e \<notin> set remoteToAdd)
        \<and> (added_location g e = LocalWebWorker \<longrightarrow> e \<in> set localToAdd \<and> e \<notin> set remoteToAdd)
        \<and> (added_location g e = Remote \<longrightarrow> e \<in> set remoteToAdd \<and> e \<notin> set localToAdd))
        toAdd
   \<and> (distinct (map (\<lambda>e. toKey (identifier e)) toAdd) \<longrightarrow>
        list_all (\<lambda>e. afterAdd (toKey (identifier e)) = Some (added_location g e)) toAdd
        \<and> keys_of localToAdd \<inter> keys_of remoteToAdd = {})"
  (is "_ \<longrightarrow> ?thesis_body")
proof (intro impI, elim conjE)
  assume run: "us_updateExtensionsOnExtHosts g mgr this toAdd toRemove = (outcome, this', issued)"
    and part: "partition_toAdd g toAdd (us_runningLocation this)
                 = (afterAdd, localToAdd, remoteToAdd)"
  have la: "localToAdd = filter (\<lambda>e. added_location g e = LocalWebWorker) toAdd"
    and ra: "remoteToAdd = filter (\<lambda>e. added_location g e = Remote) toAdd"
    using part by (simp_all add: partition_toAdd_eq)
  obtain afterRemove lr rr
    where rem: "partition_toRemove toRemove afterAdd = (afterRemove, lr, rr)"
    by (cases "partition_toRemove toRemove afterAdd") auto
  have "issued = snd (dispatch_local mgr localToAdd lr remoteToAdd rr)"
    using run us_updateExtensionsOnExtHosts_unfold [OF part rem, of mgr] by simp
  then have calls: "list_all (\<lambda>c. case c of DeltaExtensions kind a rm \<Rightarrow>
          a = (if kind = HostKind_LocalWebWorker then localToAdd else remoteToAdd)) issued"
    by (simp only: issued_add_lists)
  have routes: "list_all (\<lambda>e.
          (added_location g e = None_location \<longrightarrow> e \<notin> set localToAdd \<and> e \<notin> set remoteToAdd)
        \<and> (added_location g e = LocalWebWorker \<longrightarrow> e \<in> set localToAdd \<and> e \<notin> set remoteToAdd)
        \<and> (added_location g e = Remote \<longrightarrow> e \<in> set remoteToAdd \<and> e \<notin> set localToAdd))
        toAdd"
    unfolding la ra by (simp add: list_all_iff)
  have dist1: "list_all (\<lambda>e. afterAdd (toKey (identifier e)) = Some (added_location g e)) toAdd"
    if d: "distinct (map (\<lambda>e. toKey (identifier e)) toAdd)"
    using afterAdd_distinct [OF part d] .
  have dist2: "keys_of localToAdd \<inter> keys_of remoteToAdd = {}"
    if d: "distinct (map (\<lambda>e. toKey (identifier e)) toAdd)"
    unfolding la ra keys_of_def set_map
    by (rule filter_keys_disjoint [OF d]) simp
  show ?thesis_body
    by (intro conjI impI la ra calls routes dist1 dist2)
qed

theorem added_records_partition_witness:
  "us_updateExtensionsOnExtHosts manifest_extensionKind (hosts (Some accepting_host) (Some accepting_host))
       (initial_service () :: (unit, unit) ExtensionService)
       [E1, E2, ext_remote_workspace] []
     = (Inr (),
        (initial_service ())\<lparr>us_runningLocation :=
           [''e1'' \<mapsto> None_location, ''e2'' \<mapsto> LocalWebWorker, ''pub.ext'' \<mapsto> Remote]\<rparr>,
        [DeltaExtensions HostKind_LocalWebWorker [E2] [],
         DeltaExtensions HostKind_Remote [ext_remote_workspace] []])
   \<and> partition_toAdd manifest_extensionKind [E1, E2, ext_remote_workspace]
         (us_runningLocation (initial_service () :: (unit, unit) ExtensionService))
       = ([''e1'' \<mapsto> None_location, ''e2'' \<mapsto> LocalWebWorker, ''pub.ext'' \<mapsto> Remote],
          [E2], [ext_remote_workspace])
   \<and> distinct (map (\<lambda>e. toKey (identifier e)) [E1, E2, ext_remote_workspace])
   \<and> keys_of [E2] \<inter> keys_of [ext_remote_workspace] = {}"
proof -
  have run: "us_updateExtensionsOnExtHosts manifest_extensionKind
       (hosts (Some accepting_host) (Some accepting_host))
       (initial_service () :: (unit, unit) ExtensionService)
       [E1, E2, ext_remote_workspace] []
     = (Inr (),
        (initial_service ())\<lparr>us_runningLocation :=
           [''e1'' \<mapsto> None_location, ''e2'' \<mapsto> LocalWebWorker, ''pub.ext'' \<mapsto> Remote]\<rparr>,
        [DeltaExtensions HostKind_LocalWebWorker [E2] [],
         DeltaExtensions HostKind_Remote [ext_remote_workspace] []])"
    by (simp add: update_eval del: toKey.simps)
  have part: "partition_toAdd manifest_extensionKind [E1, E2, ext_remote_workspace]
         (us_runningLocation (initial_service () :: (unit, unit) ExtensionService))
       = ([''e1'' \<mapsto> None_location, ''e2'' \<mapsto> LocalWebWorker, ''pub.ext'' \<mapsto> Remote],
          [E2], [ext_remote_workspace])"
    by (simp add: update_eval del: toKey.simps)
  have d: "distinct (map (\<lambda>e. toKey (identifier e)) [E1, E2, ext_remote_workspace])"
    by (simp add: example_records example_keys del: toKey.simps)
  note t = added_records_partition [rule_format, OF conjI, OF run part]
  note k = t [THEN conjunct2, THEN conjunct2, THEN conjunct2, THEN conjunct2,
      rule_format, OF d, THEN conjunct2]
  show ?thesis
    by (intro conjI run part d k)
qed

subsection \<open>The partition of the removed identities\<close>

lemma afterAdd_unchanged:
  "partition_toAdd g toAdd rl = (afterAdd, la, ra) \<Longrightarrow> k \<notin> keys_of toAdd \<Longrightarrow> afterAdd k = rl k"
  using afterAdd_entry [of g toAdd rl k] by simp

lemma partition_toRemove_routes:
  assumes rem: "partition_toRemove toRemove afterAdd = (afterRemove, lr, rr)"
  shows "toKey ` set lr = {k \<in> toKey ` set toRemove. afterAdd k = Some LocalWebWorker}"
    and "toKey ` set rr = {k \<in> toKey ` set toRemove. afterAdd k = Some Remote}"
    and "set lr \<subseteq> set toRemove" and "set rr \<subseteq> set toRemove"
    and "afterRemove = (\<lambda>k. if k \<in> toKey ` set toRemove then None else afterAdd k)"
  using fold_remove_step_inv [OF rem [unfolded partition_toRemove_def]] by simp_all

text \<open>
  An update that removes the identity \<^verbatim>\<open>pub.ext\<close>, whose decision before the update
  is \<^verbatim>\<open>Remote\<close>, and adds a locally scanned \<^verbatim>\<open>web\<close> record of the same identity:
  the first loop has overwritten the entry with \<^verbatim>\<open>LocalWebWorker\<close> when the second
  loop reads it, so the removal goes to the local host and the remote host gets no
  call.
\<close>

theorem removed_identity_routed_by_new_decision_counterexample:
  "us_runningLocation
       ((initial_service ())\<lparr>us_runningLocation := [''pub.ext'' \<mapsto> Remote]\<rparr>
          :: (unit, unit) ExtensionService)
       (toKey (ExtensionIdentifier ''pub.ext''))
     = Some Remote
   \<and> us_updateExtensionsOnExtHosts manifest_extensionKind (hosts (Some accepting_host) (Some accepting_host))
       ((initial_service ())\<lparr>us_runningLocation := [''pub.ext'' \<mapsto> Remote]\<rparr>
          :: (unit, unit) ExtensionService)
       [ext_local_web] [ExtensionIdentifier ''pub.ext'']
     = (Inr (),
        (initial_service ())\<lparr>us_runningLocation := Map.empty\<rparr>,
        [DeltaExtensions HostKind_LocalWebWorker [ext_local_web] [ExtensionIdentifier ''pub.ext'']])
   \<and> partition_toRemove [ExtensionIdentifier ''pub.ext'']
         (fst (partition_toAdd manifest_extensionKind [ext_local_web] [''pub.ext'' \<mapsto> Remote]))
       = (Map.empty, [ExtensionIdentifier ''pub.ext''], [])"
  by (simp add: update_eval del: toKey.simps)

text \<open>
  Claim C6, amended. Each removed identity is routed by the entry the table holds
  for its key when the second loop reaches it, read before the entry is deleted: to
  the local remove list when the entry is \<^verbatim>\<open>LocalWebWorker\<close>, to the remote remove
  list when it is \<^verbatim>\<open>Remote\<close>, to neither when it is \<^verbatim>\<open>None\<close> or absent; these are
  the remove lists of every call the update issues, and afterwards the table has no
  entry for the identity. For every removed identity that is not also the identity
  of a record added in the same update, the entry read is the decision the table
  held before the update (the previous decision); for an identity that is also added
  in the same update it is the decision the first loop has just written. An identity
  that occurs twice in the removed sequence is routed at its first occurrence only;
  when the removed identities are pairwise distinct, the two remove lists are exactly
  the removed identities whose entry is \<^verbatim>\<open>LocalWebWorker\<close> and \<^verbatim>\<open>Remote\<close>, in order.
\<close>

theorem removed_identities_partition:
  "us_updateExtensionsOnExtHosts g mgr this toAdd toRemove = (outcome, this', issued)
   \<and> partition_toAdd g toAdd (us_runningLocation this) = (afterAdd, localToAdd, remoteToAdd)
   \<and> partition_toRemove toRemove afterAdd = (afterRemove, localToRemove, remoteToRemove)
   \<longrightarrow>
     list_all (\<lambda>c. case c of DeltaExtensions kind a rm \<Rightarrow>
          rm = (if kind = HostKind_LocalWebWorker then localToRemove else remoteToRemove)) issued
   \<and> set localToRemove \<subseteq> set toRemove \<and> set remoteToRemove \<subseteq> set toRemove
   \<and> list_all (\<lambda>i.
          (afterAdd (toKey i) = Some LocalWebWorker \<longrightarrow>
             toKey i \<in> toKey ` set localToRemove \<and> toKey i \<notin> toKey ` set remoteToRemove)
        \<and> (afterAdd (toKey i) = Some Remote \<longrightarrow>
             toKey i \<in> toKey ` set remoteToRemove \<and> toKey i \<notin> toKey ` set localToRemove)
        \<and> (afterAdd (toKey i) = Some None_location \<or> afterAdd (toKey i) = None \<longrightarrow>
             toKey i \<notin> toKey ` set localToRemove \<and> toKey i \<notin> toKey ` set remoteToRemove)
        \<and> (toKey i \<notin> keys_of toAdd \<longrightarrow> afterAdd (toKey i) = us_runningLocation this (toKey i))
        \<and> us_runningLocation this' (toKey i) = None) toRemove
   \<and> (distinct (map toKey toRemove) \<longrightarrow>
        localToRemove = filter (\<lambda>i. afterAdd (toKey i) = Some LocalWebWorker) toRemove
        \<and> remoteToRemove = filter (\<lambda>i. afterAdd (toKey i) = Some Remote) toRemove)"
  (is "_ \<longrightarrow> ?thesis_body")
proof (intro impI, elim conjE)
  assume run: "us_updateExtensionsOnExtHosts g mgr this toAdd toRemove = (outcome, this', issued)"
    and part: "partition_toAdd g toAdd (us_runningLocation this)
                 = (afterAdd, localToAdd, remoteToAdd)"
    and rem: "partition_toRemove toRemove afterAdd = (afterRemove, localToRemove, remoteToRemove)"
  note unf = us_updateExtensionsOnExtHosts_unfold [OF part rem, of mgr]
  have issued: "issued = snd (dispatch_local mgr localToAdd localToRemove remoteToAdd remoteToRemove)"
    using run unf by simp
  have "this' = this\<lparr>us_runningLocation := afterRemove\<rparr>"
    using run unf by simp
  then have after: "us_runningLocation this' = afterRemove"
    by simp
  have calls: "list_all (\<lambda>c. case c of DeltaExtensions kind a rm \<Rightarrow>
          rm = (if kind = HostKind_LocalWebWorker then localToRemove else remoteToRemove)) issued"
    unfolding issued by (rule issued_remove_lists)
  note r = partition_toRemove_routes [OF rem]
  have routes: "list_all (\<lambda>i.
          (afterAdd (toKey i) = Some LocalWebWorker \<longrightarrow>
             toKey i \<in> toKey ` set localToRemove \<and> toKey i \<notin> toKey ` set remoteToRemove)
        \<and> (afterAdd (toKey i) = Some Remote \<longrightarrow>
             toKey i \<in> toKey ` set remoteToRemove \<and> toKey i \<notin> toKey ` set localToRemove)
        \<and> (afterAdd (toKey i) = Some None_location \<or> afterAdd (toKey i) = None \<longrightarrow>
             toKey i \<notin> toKey ` set localToRemove \<and> toKey i \<notin> toKey ` set remoteToRemove)
        \<and> (toKey i \<notin> keys_of toAdd \<longrightarrow> afterAdd (toKey i) = us_runningLocation this (toKey i))
        \<and> us_runningLocation this' (toKey i) = None) toRemove"
    unfolding list_all_iff r(1) r(2) after r(5)
    using afterAdd_unchanged [OF part] by auto
  have dist: "localToRemove = filter (\<lambda>i. afterAdd (toKey i) = Some LocalWebWorker) toRemove
        \<and> remoteToRemove = filter (\<lambda>i. afterAdd (toKey i) = Some Remote) toRemove"
    if d: "distinct (map toKey toRemove)"
    using fold_remove_step_distinct [OF d rem [unfolded partition_toRemove_def]] by simp
  show ?thesis_body
    by (intro conjI impI calls r(3) r(4) routes dist [THEN conjunct1] dist [THEN conjunct2])
qed

theorem removed_identities_partition_witness:
  "us_updateExtensionsOnExtHosts manifest_extensionKind (hosts (Some accepting_host) (Some accepting_host))
       ((initial_service ())\<lparr>us_runningLocation :=
           [''e1'' \<mapsto> None_location, ''e2'' \<mapsto> LocalWebWorker, ''pub.ext'' \<mapsto> Remote]\<rparr>
          :: (unit, unit) ExtensionService)
       [] [ExtensionIdentifier ''e1'', ExtensionIdentifier ''Pub.Ext'', ExtensionIdentifier ''e2'']
     = (Inr (),
        (initial_service ())\<lparr>us_runningLocation :=
           [''e1'' \<mapsto> None_location, ''e2'' \<mapsto> LocalWebWorker, ''pub.ext'' \<mapsto> Remote]
             (''e1'' := None, ''pub.ext'' := None, ''e2'' := None)\<rparr>,
        [DeltaExtensions HostKind_LocalWebWorker [] [ExtensionIdentifier ''e2''],
         DeltaExtensions HostKind_Remote [] [ExtensionIdentifier ''Pub.Ext'']])
   \<and> partition_toAdd manifest_extensionKind []
         (us_runningLocation ((initial_service ())\<lparr>us_runningLocation :=
           [''e1'' \<mapsto> None_location, ''e2'' \<mapsto> LocalWebWorker, ''pub.ext'' \<mapsto> Remote]\<rparr>
          :: (unit, unit) ExtensionService))
       = ([''e1'' \<mapsto> None_location, ''e2'' \<mapsto> LocalWebWorker, ''pub.ext'' \<mapsto> Remote], [], [])
   \<and> partition_toRemove
         [ExtensionIdentifier ''e1'', ExtensionIdentifier ''Pub.Ext'', ExtensionIdentifier ''e2'']
         [''e1'' \<mapsto> None_location, ''e2'' \<mapsto> LocalWebWorker, ''pub.ext'' \<mapsto> Remote]
       = ([''e1'' \<mapsto> None_location, ''e2'' \<mapsto> LocalWebWorker, ''pub.ext'' \<mapsto> Remote]
             (''e1'' := None, ''pub.ext'' := None, ''e2'' := None),
          [ExtensionIdentifier ''e2''], [ExtensionIdentifier ''Pub.Ext''])
   \<and> set [ExtensionIdentifier ''e2'']
       \<subseteq> set [ExtensionIdentifier ''e1'', ExtensionIdentifier ''Pub.Ext'',
              ExtensionIdentifier ''e2'']"
proof -
  have run: "us_updateExtensionsOnExtHosts manifest_extensionKind
       (hosts (Some accepting_host) (Some accepting_host))
       ((initial_service ())\<lparr>us_runningLocation :=
           [''e1'' \<mapsto> None_location, ''e2'' \<mapsto> LocalWebWorker, ''pub.ext'' \<mapsto> Remote]\<rparr>
          :: (unit, unit) ExtensionService)
       [] [ExtensionIdentifier ''e1'', ExtensionIdentifier ''Pub.Ext'', ExtensionIdentifier ''e2'']
     = (Inr (),
        (initial_service ())\<lparr>us_runningLocation :=
           [''e1'' \<mapsto> None_location, ''e2'' \<mapsto> LocalWebWorker, ''pub.ext'' \<mapsto> Remote]
             (''e1'' := None, ''pub.ext'' := None, ''e2'' := None)\<rparr>,
        [DeltaExtensions HostKind_LocalWebWorker [] [ExtensionIdentifier ''e2''],
         DeltaExtensions HostKind_Remote [] [ExtensionIdentifier ''Pub.Ext'']])"
    by (simp add: update_eval del: toKey.simps)
  have part: "partition_toAdd manifest_extensionKind []
         (us_runningLocation ((initial_service ())\<lparr>us_runningLocation :=
           [''e1'' \<mapsto> None_location, ''e2'' \<mapsto> LocalWebWorker, ''pub.ext'' \<mapsto> Remote]\<rparr>
          :: (unit, unit) ExtensionService))
       = ([''e1'' \<mapsto> None_location, ''e2'' \<mapsto> LocalWebWorker, ''pub.ext'' \<mapsto> Remote], [], [])"
    by (simp add: update_eval del: toKey.simps)
  have rem: "partition_toRemove
         [ExtensionIdentifier ''e1'', ExtensionIdentifier ''Pub.Ext'', ExtensionIdentifier ''e2'']
         [''e1'' \<mapsto> None_location, ''e2'' \<mapsto> LocalWebWorker, ''pub.ext'' \<mapsto> Remote]
       = ([''e1'' \<mapsto> None_location, ''e2'' \<mapsto> LocalWebWorker, ''pub.ext'' \<mapsto> Remote]
             (''e1'' := None, ''pub.ext'' := None, ''e2'' := None),
          [ExtensionIdentifier ''e2''], [ExtensionIdentifier ''Pub.Ext''])"
    by (simp add: update_eval del: toKey.simps)
  note t = removed_identities_partition [rule_format, OF conjI [OF run conjI [OF part rem]]]
  show ?thesis
    by (intro conjI run part rem t [THEN conjunct2, THEN conjunct1])
qed

subsection \<open>The order of the two dispatches\<close>

lemma dispatch_local_closed_form:
  "dispatch_local mgr la lr ra rr
     = (if call_rejected mgr HostKind_LocalWebWorker la lr
          then Inl (DeltaRejected HostKind_LocalWebWorker)
        else if call_rejected mgr HostKind_Remote ra rr
          then Inl (DeltaRejected HostKind_Remote)
        else Inr (),
        (if call_due mgr HostKind_LocalWebWorker la lr
           then [DeltaExtensions HostKind_LocalWebWorker la lr] else [])
        @ (if call_due mgr HostKind_Remote ra rr
              \<and> \<not> call_rejected mgr HostKind_LocalWebWorker la lr
           then [DeltaExtensions HostKind_Remote ra rr] else []))"
  by (cases "mgr HostKind_LocalWebWorker"; cases "mgr HostKind_Remote")
    (simp_all add: dispatch_local_def dispatch_remote_def call_due_def call_rejected_def)

text \<open>
  An update with a delta for each host, a local host that rejects and a remote host
  that would accept: the method ends with the local rejection and has issued the
  local call only. The remote delta (one added record) is never sent.
\<close>

theorem remote_call_not_issued_counterexample:
  "us_updateExtensionsOnExtHosts manifest_extensionKind
       (hosts (Some rejecting_host) (Some accepting_host))
       (initial_service () :: (unit, unit) ExtensionService)
       [E2, ext_remote_workspace] []
     = (Inl (DeltaRejected HostKind_LocalWebWorker),
        (initial_service ())\<lparr>us_runningLocation :=
           [''e2'' \<mapsto> LocalWebWorker, ''pub.ext'' \<mapsto> Remote]\<rparr>,
        [DeltaExtensions HostKind_LocalWebWorker [E2] []])
   \<and> partition_toAdd manifest_extensionKind [E2, ext_remote_workspace] Map.empty
       = ([''e2'' \<mapsto> LocalWebWorker, ''pub.ext'' \<mapsto> Remote], [E2], [ext_remote_workspace])
   \<and> DeltaExtensions HostKind_Remote [ext_remote_workspace] []
       \<notin> set [DeltaExtensions HostKind_LocalWebWorker [E2] []]"
  by (simp add: update_eval del: toKey.simps)

text \<open>
  Claim C2, amended. In one update the delta calls are issued one after the other,
  the local host's first, each awaited before the method goes on. The local call is
  issued exactly when it is due, whatever the remote host does. The remote call is
  issued exactly when it is due and the local call was not rejected: a rejection of
  the local call ends the update with that error and the remote call is not issued;
  a rejection of the remote call ends the update with that error after the local call
  has completed.
\<close>

theorem dispatch_is_sequential:
  "us_updateExtensionsOnExtHosts g mgr this toAdd toRemove = (outcome, this', issued)
   \<and> partition_toAdd g toAdd (us_runningLocation this) = (afterAdd, localToAdd, remoteToAdd)
   \<and> partition_toRemove toRemove afterAdd = (afterRemove, localToRemove, remoteToRemove)
   \<longrightarrow>
     issued
       = (if call_due mgr HostKind_LocalWebWorker localToAdd localToRemove
            then [DeltaExtensions HostKind_LocalWebWorker localToAdd localToRemove] else [])
         @ (if call_due mgr HostKind_Remote remoteToAdd remoteToRemove
               \<and> \<not> call_rejected mgr HostKind_LocalWebWorker localToAdd localToRemove
            then [DeltaExtensions HostKind_Remote remoteToAdd remoteToRemove] else [])
   \<and> outcome
       = (if call_rejected mgr HostKind_LocalWebWorker localToAdd localToRemove
            then Inl (DeltaRejected HostKind_LocalWebWorker)
          else if call_rejected mgr HostKind_Remote remoteToAdd remoteToRemove
            then Inl (DeltaRejected HostKind_Remote)
          else Inr ())
   \<and> (call_rejected mgr HostKind_LocalWebWorker localToAdd localToRemove \<longrightarrow>
        outcome = Inl (DeltaRejected HostKind_LocalWebWorker)
        \<and> issued = [DeltaExtensions HostKind_LocalWebWorker localToAdd localToRemove])
   \<and> (DeltaExtensions HostKind_LocalWebWorker localToAdd localToRemove \<in> set issued
        \<longleftrightarrow> call_due mgr HostKind_LocalWebWorker localToAdd localToRemove)
   \<and> (DeltaExtensions HostKind_Remote remoteToAdd remoteToRemove \<in> set issued
        \<longleftrightarrow> call_due mgr HostKind_Remote remoteToAdd remoteToRemove
            \<and> \<not> call_rejected mgr HostKind_LocalWebWorker localToAdd localToRemove)"
  (is "_ \<longrightarrow> ?thesis_body")
proof (intro impI, elim conjE)
  assume run: "us_updateExtensionsOnExtHosts g mgr this toAdd toRemove = (outcome, this', issued)"
    and part: "partition_toAdd g toAdd (us_runningLocation this)
                 = (afterAdd, localToAdd, remoteToAdd)"
    and rem: "partition_toRemove toRemove afterAdd = (afterRemove, localToRemove, remoteToRemove)"
  note unf = us_updateExtensionsOnExtHosts_unfold [OF part rem, of mgr]
  have d: "dispatch_local mgr localToAdd localToRemove remoteToAdd remoteToRemove
             = (outcome, issued)"
    using run unf by (simp add: prod_eq_iff)
  note c = d [unfolded dispatch_local_closed_form, unfolded prod.inject]
  have rej_due: "call_due mgr HostKind_LocalWebWorker localToAdd localToRemove"
    if "call_rejected mgr HostKind_LocalWebWorker localToAdd localToRemove"
    using that by (auto simp: call_due_def call_rejected_def split: option.splits)
  show ?thesis_body
    using rej_due
    by (simp add: c [THEN conjunct1, symmetric] c [THEN conjunct2, symmetric])
qed

theorem dispatch_is_sequential_witness:
  "us_updateExtensionsOnExtHosts manifest_extensionKind
       (hosts (Some accepting_host) (Some rejecting_host))
       (initial_service () :: (unit, unit) ExtensionService)
       [ext_remote_workspace, E2] []
     = (Inl (DeltaRejected HostKind_Remote),
        (initial_service ())\<lparr>us_runningLocation :=
           [''pub.ext'' \<mapsto> Remote, ''e2'' \<mapsto> LocalWebWorker]\<rparr>,
        [DeltaExtensions HostKind_LocalWebWorker [E2] [],
         DeltaExtensions HostKind_Remote [ext_remote_workspace] []])
   \<and> partition_toAdd manifest_extensionKind [ext_remote_workspace, E2]
         (us_runningLocation (initial_service () :: (unit, unit) ExtensionService))
       = ([''pub.ext'' \<mapsto> Remote, ''e2'' \<mapsto> LocalWebWorker], [E2], [ext_remote_workspace])
   \<and> partition_toRemove [] [''pub.ext'' \<mapsto> Remote, ''e2'' \<mapsto> LocalWebWorker]
       = ([''pub.ext'' \<mapsto> Remote, ''e2'' \<mapsto> LocalWebWorker], [], [])
   \<and> (Inl (DeltaRejected HostKind_Remote) :: delta_error + unit)
       = (if call_rejected
               (hosts (Some accepting_host) (Some rejecting_host))
               HostKind_LocalWebWorker [E2] []
            then Inl (DeltaRejected HostKind_LocalWebWorker)
          else if call_rejected
               (hosts (Some accepting_host) (Some rejecting_host))
               HostKind_Remote [ext_remote_workspace] []
            then Inl (DeltaRejected HostKind_Remote)
          else Inr ())"
proof -
  have run: "us_updateExtensionsOnExtHosts manifest_extensionKind
       (hosts (Some accepting_host) (Some rejecting_host))
       (initial_service () :: (unit, unit) ExtensionService)
       [ext_remote_workspace, E2] []
     = (Inl (DeltaRejected HostKind_Remote),
        (initial_service ())\<lparr>us_runningLocation :=
           [''pub.ext'' \<mapsto> Remote, ''e2'' \<mapsto> LocalWebWorker]\<rparr>,
        [DeltaExtensions HostKind_LocalWebWorker [E2] [],
         DeltaExtensions HostKind_Remote [ext_remote_workspace] []])"
    by (simp add: update_eval del: toKey.simps)
  have part: "partition_toAdd manifest_extensionKind [ext_remote_workspace, E2]
         (us_runningLocation (initial_service () :: (unit, unit) ExtensionService))
       = ([''pub.ext'' \<mapsto> Remote, ''e2'' \<mapsto> LocalWebWorker], [E2], [ext_remote_workspace])"
    by (simp add: update_eval del: toKey.simps)
  have rem: "partition_toRemove [] [''pub.ext'' \<mapsto> Remote, ''e2'' \<mapsto> LocalWebWorker]
       = ([''pub.ext'' \<mapsto> Remote, ''e2'' \<mapsto> LocalWebWorker], [], [])"
    by (simp add: partition_toRemove_def)
  note t = dispatch_is_sequential [rule_format, OF conjI [OF run conjI [OF part rem]]]
  show ?thesis
    by (intro conjI run part rem t [THEN conjunct2, THEN conjunct1])
qed

subsection \<open>The table after an incremental update\<close>

text \<open>
  An update that adds \<^verbatim>\<open>E2\<close> to a service with an empty table, with a local host
  that rejects the delta: the method ends with the rejection, and the table holds
  \<^verbatim>\<open>LocalWebWorker\<close> for \<^verbatim>\<open>e2\<close>, which it did not hold before.
\<close>

theorem bookkeeping_not_rolled_back_counterexample:
  "us_updateExtensionsOnExtHosts manifest_extensionKind
       (hosts (Some rejecting_host) (Some rejecting_host))
       (initial_service () :: (unit, unit) ExtensionService) [E2] []
     = (Inl (DeltaRejected HostKind_LocalWebWorker),
        (initial_service ())\<lparr>us_runningLocation := [''e2'' \<mapsto> LocalWebWorker]\<rparr>,
        [DeltaExtensions HostKind_LocalWebWorker [E2] []])
   \<and> us_runningLocation (initial_service () :: (unit, unit) ExtensionService) ''e2'' = None
   \<and> us_runningLocation
         (fst (snd (us_updateExtensionsOnExtHosts manifest_extensionKind
            (hosts (Some rejecting_host) (Some rejecting_host))
            (initial_service () :: (unit, unit) ExtensionService) [E2] []))) ''e2''
       = Some LocalWebWorker"
  by (simp add: update_eval del: toKey.simps)

text \<open>
  Claim C4, amended. The per-host bookkeeping of the service is the table
  \<^verbatim>\<open>_runningLocation\<close>, and an update writes it in its two loops, before any delta is
  dispatched and whatever the hosts answer: after the update the table has no entry
  for a removed identity, holds for every other added identity the location picked
  for its last added record, and is unchanged elsewhere. The service after the update
  is the same for any two host behaviours (accepting, rejecting or absent): a
  rejection does not restore the table.
\<close>

theorem bookkeeping_written_before_dispatch:
  "us_runningLocation (fst (snd (us_updateExtensionsOnExtHosts g mgr this toAdd toRemove)))
     = (\<lambda>k. if k \<in> toKey ` set toRemove then None
            else if k \<in> keys_of toAdd
              then Some (added_location g (last (records_of k toAdd)))
            else us_runningLocation this k)
   \<and> fst (snd (us_updateExtensionsOnExtHosts g mgr this toAdd toRemove))
       = fst (snd (us_updateExtensionsOnExtHosts g mgr' this toAdd toRemove))
   \<and> fst (snd (us_updateExtensionsOnExtHosts g mgr this toAdd toRemove))
       = this\<lparr>us_runningLocation :=
            fst (partition_toRemove toRemove
                   (fst (partition_toAdd g toAdd (us_runningLocation this))))\<rparr>"
proof -
  obtain afterAdd la ra
    where part: "partition_toAdd g toAdd (us_runningLocation this) = (afterAdd, la, ra)"
    by (cases "partition_toAdd g toAdd (us_runningLocation this)") auto
  obtain afterRemove lr rr
    where rem: "partition_toRemove toRemove afterAdd = (afterRemove, lr, rr)"
    by (cases "partition_toRemove toRemove afterAdd") auto
  have st: "fst (snd (us_updateExtensionsOnExtHosts g m this toAdd toRemove))
      = this\<lparr>us_runningLocation := afterRemove\<rparr>" for m
    by (simp add: us_updateExtensionsOnExtHosts_unfold [OF part rem])
  have a: "afterAdd k = (if k \<in> keys_of toAdd
              then Some (added_location g (last (records_of k toAdd)))
            else us_runningLocation this k)" for k
    using afterAdd_entry [of g toAdd "us_runningLocation this" k] part by simp
  have "afterRemove = (\<lambda>k. if k \<in> toKey ` set toRemove then None else afterAdd k)"
    using partition_toRemove_routes(5) [OF rem] .
  then have 1: "us_runningLocation (fst (snd (us_updateExtensionsOnExtHosts g mgr this toAdd toRemove)))
     = (\<lambda>k. if k \<in> toKey ` set toRemove then None
            else if k \<in> keys_of toAdd
              then Some (added_location g (last (records_of k toAdd)))
            else us_runningLocation this k)"
    by (simp add: st a fun_eq_iff)
  have 2: "fst (snd (us_updateExtensionsOnExtHosts g mgr this toAdd toRemove))
       = fst (snd (us_updateExtensionsOnExtHosts g mgr' this toAdd toRemove))"
    by (simp add: st)
  have 3: "fst (snd (us_updateExtensionsOnExtHosts g mgr this toAdd toRemove))
       = this\<lparr>us_runningLocation :=
            fst (partition_toRemove toRemove
                   (fst (partition_toAdd g toAdd (us_runningLocation this))))\<rparr>"
    by (simp add: st part rem)
  show ?thesis
    by (intro conjI 1 2 3)
qed

theorem bookkeeping_written_before_dispatch_witness:
  "us_runningLocation
         (fst (snd (us_updateExtensionsOnExtHosts manifest_extensionKind
            (hosts (Some rejecting_host) (Some rejecting_host))
            ((initial_service ())\<lparr>us_runningLocation := [''e1'' \<mapsto> Remote]\<rparr>
               :: (unit, unit) ExtensionService)
            [ext_local_web] [ExtensionIdentifier ''e1''])))
     = us_runningLocation
         (fst (snd (us_updateExtensionsOnExtHosts manifest_extensionKind
            (hosts None None)
            ((initial_service ())\<lparr>us_runningLocation := [''e1'' \<mapsto> Remote]\<rparr>
               :: (unit, unit) ExtensionService)
            [ext_local_web] [ExtensionIdentifier ''e1''])))
   \<and> us_runningLocation
         (fst (snd (us_updateExtensionsOnExtHosts manifest_extensionKind
            (hosts (Some rejecting_host) (Some rejecting_host))
            ((initial_service ())\<lparr>us_runningLocation := [''e1'' \<mapsto> Remote]\<rparr>
               :: (unit, unit) ExtensionService)
            [ext_local_web] [ExtensionIdentifier ''e1'']))) ''pub.ext''
       = Some LocalWebWorker"
proof -
  note t = bookkeeping_written_before_dispatch
    [of manifest_extensionKind "hosts (Some rejecting_host) (Some rejecting_host)"
        "(initial_service ())\<lparr>us_runningLocation := [''e1'' \<mapsto> Remote]\<rparr>
           :: (unit, unit) ExtensionService"
        "[ext_local_web]" "[ExtensionIdentifier ''e1'']" "hosts None None"]
  have same: "us_runningLocation
         (fst (snd (us_updateExtensionsOnExtHosts manifest_extensionKind
            (hosts (Some rejecting_host) (Some rejecting_host))
            ((initial_service ())\<lparr>us_runningLocation := [''e1'' \<mapsto> Remote]\<rparr>
               :: (unit, unit) ExtensionService)
            [ext_local_web] [ExtensionIdentifier ''e1''])))
     = us_runningLocation
         (fst (snd (us_updateExtensionsOnExtHosts manifest_extensionKind
            (hosts None None)
            ((initial_service ())\<lparr>us_runningLocation := [''e1'' \<mapsto> Remote]\<rparr>
               :: (unit, unit) ExtensionService)
            [ext_local_web] [ExtensionIdentifier ''e1''])))"
    using t [THEN conjunct2, THEN conjunct1] by (rule arg_cong)
  have entry: "us_runningLocation
         (fst (snd (us_updateExtensionsOnExtHosts manifest_extensionKind
            (hosts (Some rejecting_host) (Some rejecting_host))
            ((initial_service ())\<lparr>us_runningLocation := [''e1'' \<mapsto> Remote]\<rparr>
               :: (unit, unit) ExtensionService)
            [ext_local_web] [ExtensionIdentifier ''e1'']))) ''pub.ext''
       = Some LocalWebWorker"
    unfolding t [THEN conjunct1]
    by (simp add: keys_of_def records_of_def added_location_def Schemas_vscodeRemote_def
        example_records example_keys del: toKey.simps)
  show ?thesis
    by (intro conjI same entry)
qed

subsection \<open>The remote init data after a full scan\<close>

lemma us_scanAndHandleExtensions_unfold:
  "us_scanAndHandleExtensions g chk rdelta rall conndata this
       localExtensions remoteEnv remoteExtensions remoteAgentConnection
     = (let table = us_determineRunningLocation g (chk localExtensions) (chk remoteExtensions)
                      (remoteEnv \<noteq> None \<and> remoteAgentConnection \<noteq> None);
            remotePlaced = filterByRunningLocation (chk remoteExtensions) table Remote;
            localPlaced = filterByRunningLocation (chk localExtensions) table LocalWebWorker;
            registry = fst (rdelta (us_registry this) (remotePlaced @ localPlaced) []);
            removedDueToLooping = snd (rdelta (us_registry this) (remotePlaced @ localPlaced) [])
        in (\<lparr>us_runningLocation = table,
             us_remoteInitData =
               (case (remoteEnv, remoteAgentConnection) of
                  (Some env, Some connection) \<Rightarrow> Some
                     \<lparr>connectionData = conndata (remoteAuthority connection),
                      pid = env_pid env,
                      appRoot = env_appRoot env,
                      extensionHostLogsPath = env_extensionHostLogsPath env,
                      globalStorageHome = env_globalStorageHome env,
                      workspaceStorageHome = env_workspaceStorageHome env,
                      extensions = remotePlaced,
                      allExtensions = rall registry\<rparr>
                | _ \<Rightarrow> us_remoteInitData this),
             us_registry = registry\<rparr>,
            removedDueToLooping, rall registry))"
  by (cases remoteEnv; cases remoteAgentConnection)
    (simp_all add: us_scanAndHandleExtensions_def Let_def split: prod.splits)

text \<open>
  Claim C8. A full scan (once its three awaited scans have resolved) replaces the
  table by \<^verbatim>\<open>_determineRunningLocation\<close> of the two enabled catalogs and registers the
  remote-placed followed by the local-placed extensions. When a remote environment
  and a remote connection are both present, it stores a new \<^verbatim>\<open>_remoteInitData\<close> whose
  \<^verbatim>\<open>extensions\<close> are exactly the extensions of the (enabled) remote catalog whose
  decision in the new table is \<^verbatim>\<open>Remote\<close> and whose \<^verbatim>\<open>allExtensions\<close> is the registry's
  complete list after the registration, with the connection data and the fields of
  the environment. When either is absent, the scan does not assign the field: it keeps
  the content it had. So for a service that holds no snapshot before the scan, a
  snapshot is held after it if and only if both are present.
\<close>

theorem remote_init_snapshot_after_scan:
  "us_scanAndHandleExtensions g chk rdelta rall conndata this
       localExtensions remoteEnv remoteExtensions remoteAgentConnection
     = (this', looping, handled)
   \<longrightarrow>
     us_runningLocation this'
       = us_determineRunningLocation g (chk localExtensions) (chk remoteExtensions)
           (remoteEnv \<noteq> None \<and> remoteAgentConnection \<noteq> None)
   \<and> us_registry this'
       = fst (rdelta (us_registry this)
                (filterByRunningLocation (chk remoteExtensions) (us_runningLocation this') Remote
                 @ filterByRunningLocation (chk localExtensions) (us_runningLocation this')
                     LocalWebWorker) [])
   \<and> (remoteEnv = Some env \<and> remoteAgentConnection = Some connection \<longrightarrow>
        us_remoteInitData this' = Some
          \<lparr>connectionData = conndata (remoteAuthority connection),
           pid = env_pid env,
           appRoot = env_appRoot env,
           extensionHostLogsPath = env_extensionHostLogsPath env,
           globalStorageHome = env_globalStorageHome env,
           workspaceStorageHome = env_workspaceStorageHome env,
           extensions =
             filter (\<lambda>ext. us_runningLocation this' (toKey (identifier ext)) = Some Remote)
               (chk remoteExtensions),
           allExtensions = rall (us_registry this')\<rparr>)
   \<and> (remoteEnv = None \<or> remoteAgentConnection = None \<longrightarrow>
        us_remoteInitData this' = us_remoteInitData this)
   \<and> (us_remoteInitData this = None \<longrightarrow>
        (us_remoteInitData this' \<noteq> None
           \<longleftrightarrow> remoteEnv \<noteq> None \<and> remoteAgentConnection \<noteq> None))"
  (is "_ \<longrightarrow> ?thesis_body")
proof
  assume run: "us_scanAndHandleExtensions g chk rdelta rall conndata this
       localExtensions remoteEnv remoteExtensions remoteAgentConnection
     = (this', looping, handled)"
  note st = run [unfolded us_scanAndHandleExtensions_unfold Let_def prod.inject,
      THEN conjunct1, symmetric]
  have 1: "us_runningLocation this'
       = us_determineRunningLocation g (chk localExtensions) (chk remoteExtensions)
           (remoteEnv \<noteq> None \<and> remoteAgentConnection \<noteq> None)"
    by (subst st) simp
  have 2: "us_registry this'
       = fst (rdelta (us_registry this)
                (filterByRunningLocation (chk remoteExtensions) (us_runningLocation this') Remote
                 @ filterByRunningLocation (chk localExtensions) (us_runningLocation this')
                     LocalWebWorker) [])"
    unfolding 1 by (subst st) simp
  have 3: "us_remoteInitData this' = Some
          \<lparr>connectionData = conndata (remoteAuthority connection),
           pid = env_pid env,
           appRoot = env_appRoot env,
           extensionHostLogsPath = env_extensionHostLogsPath env,
           globalStorageHome = env_globalStorageHome env,
           workspaceStorageHome = env_workspaceStorageHome env,
           extensions =
             filter (\<lambda>ext. us_runningLocation this' (toKey (identifier ext)) = Some Remote)
               (chk remoteExtensions),
           allExtensions = rall (us_registry this')\<rparr>"
    if "remoteEnv = Some env \<and> remoteAgentConnection = Some connection"
    unfolding 1 2 using that by (subst st) (simp add: filterByRunningLocation_def)
  have 4: "us_remoteInitData this' = us_remoteInitData this"
    if "remoteEnv = None \<or> remoteAgentConnection = None"
    using that by (subst st) (auto split: option.splits)
  have 5: "us_remoteInitData this' \<noteq> None
           \<longleftrightarrow> remoteEnv \<noteq> None \<and> remoteAgentConnection \<noteq> None"
    if "us_remoteInitData this = None"
    using that by (subst st) (auto split: option.splits)
  show ?thesis_body
    by (intro conjI impI 1 2 3 4 5) simp_all
qed

theorem remote_init_snapshot_after_scan_witness:
  "us_scanAndHandleExtensions manifest_extensionKind (\<lambda>extensions. extensions)
       (\<lambda>registry toAdd toRemove. (registry @ toAdd, [])) (\<lambda>registry. registry)
       (\<lambda>authority. authority) (initial_service [])
       [E1, E2]
       (Some \<lparr>env_pid = 42, env_appRoot = ''/app'', env_extensionHostLogsPath = ''/logs'',
              env_globalStorageHome = ''/global'', env_workspaceStorageHome = ''/workspace''\<rparr>)
       [E1_remote]
       (Some \<lparr>remoteAuthority = ''host''\<rparr>)
     = (\<lparr>us_runningLocation = [''e1'' \<mapsto> Remote, ''e2'' \<mapsto> LocalWebWorker],
         us_remoteInitData = Some
           \<lparr>connectionData = ''host'', pid = 42, appRoot = ''/app'',
            extensionHostLogsPath = ''/logs'', globalStorageHome = ''/global'',
            workspaceStorageHome = ''/workspace'',
            extensions = [E1_remote], allExtensions = [E1_remote, E2]\<rparr>,
         us_registry = [E1_remote, E2]\<rparr>,
        [], [E1_remote, E2])
   \<and> us_remoteInitData (initial_service [] :: (string, IExtensionDescription list) ExtensionService)
       = None
   \<and> us_remoteInitData
         \<lparr>us_runningLocation = [''e1'' \<mapsto> Remote, ''e2'' \<mapsto> LocalWebWorker],
          us_remoteInitData = Some
            \<lparr>connectionData = ''host'', pid = 42, appRoot = ''/app'',
             extensionHostLogsPath = ''/logs'', globalStorageHome = ''/global'',
             workspaceStorageHome = ''/workspace'',
             extensions = [E1_remote], allExtensions = [E1_remote, E2]\<rparr>,
          us_registry = [E1_remote, E2]\<rparr>
       \<noteq> None
   \<and> fst (us_scanAndHandleExtensions manifest_extensionKind (\<lambda>extensions. extensions)
        (\<lambda>registry toAdd toRemove. (registry @ toAdd, [])) (\<lambda>registry. registry)
        (\<lambda>authority. authority) (initial_service [])
        [E1, E2] None [] None)
     = \<lparr>us_runningLocation = [''e1'' \<mapsto> None_location, ''e2'' \<mapsto> LocalWebWorker],
        us_remoteInitData = None, us_registry = [E2]\<rparr>"
proof -
  have table: "us_determineRunningLocation manifest_extensionKind [E1, E2] [E1_remote] h
      = [''e1'' \<mapsto> Remote, ''e2'' \<mapsto> LocalWebWorker]" for h
    by (simp add: us_determineRunningLocation_def determineRunningLocation_closed_form keys_of_def
        fun_eq_iff example_records example_keys del: toKey.simps)
  have table0: "us_determineRunningLocation manifest_extensionKind [E1, E2] [] h
      = [''e1'' \<mapsto> None_location, ''e2'' \<mapsto> LocalWebWorker]" for h
    by (simp add: us_determineRunningLocation_def determineRunningLocation_closed_form keys_of_def
        fun_eq_iff example_records example_keys del: toKey.simps)
  have run: "us_scanAndHandleExtensions manifest_extensionKind (\<lambda>extensions. extensions)
       (\<lambda>registry toAdd toRemove. (registry @ toAdd, [])) (\<lambda>registry. registry)
       (\<lambda>authority. authority) (initial_service [])
       [E1, E2]
       (Some \<lparr>env_pid = 42, env_appRoot = ''/app'', env_extensionHostLogsPath = ''/logs'',
              env_globalStorageHome = ''/global'', env_workspaceStorageHome = ''/workspace''\<rparr>)
       [E1_remote]
       (Some \<lparr>remoteAuthority = ''host''\<rparr>)
     = (\<lparr>us_runningLocation = [''e1'' \<mapsto> Remote, ''e2'' \<mapsto> LocalWebWorker],
         us_remoteInitData = Some
           \<lparr>connectionData = ''host'', pid = 42, appRoot = ''/app'',
            extensionHostLogsPath = ''/logs'', globalStorageHome = ''/global'',
            workspaceStorageHome = ''/workspace'',
            extensions = [E1_remote], allExtensions = [E1_remote, E2]\<rparr>,
         us_registry = [E1_remote, E2]\<rparr>,
        [], [E1_remote, E2])"
    unfolding us_scanAndHandleExtensions_unfold Let_def table
    by (simp add: filterByRunningLocation_def initial_service_def example_records example_keys
        del: toKey.simps)
  have none: "fst (us_scanAndHandleExtensions manifest_extensionKind (\<lambda>extensions. extensions)
        (\<lambda>registry toAdd toRemove. (registry @ toAdd, [])) (\<lambda>registry. registry)
        (\<lambda>authority. authority) (initial_service [])
        [E1, E2] None [] None)
     = \<lparr>us_runningLocation = [''e1'' \<mapsto> None_location, ''e2'' \<mapsto> LocalWebWorker],
        us_remoteInitData = None, us_registry = [E2]\<rparr>"
    unfolding us_scanAndHandleExtensions_unfold Let_def table0
    by (simp add: filterByRunningLocation_def initial_service_def example_records example_keys
        del: toKey.simps)
  have init: "us_remoteInitData
      (initial_service [] :: (string, IExtensionDescription list) ExtensionService) = None"
    by (simp add: initial_service_def)
  note t = remote_init_snapshot_after_scan [rule_format, OF run]
  note iff = t [THEN conjunct2, THEN conjunct2, THEN conjunct2, THEN conjunct2,
      rule_format, OF init]
  have retained: "us_remoteInitData
         \<lparr>us_runningLocation = [''e1'' \<mapsto> Remote, ''e2'' \<mapsto> LocalWebWorker],
          us_remoteInitData = Some
            \<lparr>connectionData = ''host'', pid = 42, appRoot = ''/app'',
             extensionHostLogsPath = ''/logs'', globalStorageHome = ''/global'',
             workspaceStorageHome = ''/workspace'',
             extensions = [E1_remote], allExtensions = [E1_remote, E2]\<rparr>,
          us_registry = [E1_remote, E2]\<rparr>
       \<noteq> None"
    using iff by simp
  show ?thesis
    by (intro conjI run init retained none)
qed

end
